theory Spec2Isabelle
  imports Complex_Main "HOL-Library.AList"
begin

section \<open>Numbers\<close>

text \<open>
  A JavaScript number is modelled as an exact real, an infinity or \<open>NaN\<close>, with
  the arithmetic and the comparisons of the host on them: \<open>NaN\<close> propagates and
  every comparison with \<open>NaN\<close> is false. Rounding to binary doubles, overflow and
  the sign of zero are outside the model.
\<close>

datatype number = NaN | NegInf | PosInf | Num real

instantiation number :: "{plus, minus, times, inverse, abs, ord}"
begin

fun plus_number :: "number \<Rightarrow> number \<Rightarrow> number" where
  "plus_number NaN _ = NaN"
| "plus_number _ NaN = NaN"
| "plus_number (Num a) (Num b) = Num (a + b)"
| "plus_number PosInf NegInf = NaN"
| "plus_number NegInf PosInf = NaN"
| "plus_number PosInf _ = PosInf"
| "plus_number _ PosInf = PosInf"
| "plus_number NegInf _ = NegInf"
| "plus_number _ NegInf = NegInf"

fun minus_number :: "number \<Rightarrow> number \<Rightarrow> number" where
  "minus_number NaN _ = NaN"
| "minus_number _ NaN = NaN"
| "minus_number (Num a) (Num b) = Num (a - b)"
| "minus_number PosInf PosInf = NaN"
| "minus_number NegInf NegInf = NaN"
| "minus_number PosInf _ = PosInf"
| "minus_number _ PosInf = NegInf"
| "minus_number NegInf _ = NegInf"
| "minus_number _ NegInf = PosInf"

fun times_number :: "number \<Rightarrow> number \<Rightarrow> number" where
  "times_number NaN _ = NaN"
| "times_number _ NaN = NaN"
| "times_number (Num a) (Num b) = Num (a * b)"
| "times_number (Num a) PosInf = (if a = 0 then NaN else if 0 < a then PosInf else NegInf)"
| "times_number (Num a) NegInf = (if a = 0 then NaN else if 0 < a then NegInf else PosInf)"
| "times_number PosInf (Num b) = (if b = 0 then NaN else if 0 < b then PosInf else NegInf)"
| "times_number NegInf (Num b) = (if b = 0 then NaN else if 0 < b then NegInf else PosInf)"
| "times_number PosInf PosInf = PosInf"
| "times_number PosInf NegInf = NegInf"
| "times_number NegInf PosInf = NegInf"
| "times_number NegInf NegInf = PosInf"

text \<open>
  A zero divisor is taken as the positive zero. The source divides by the
  constants 2 and 20 and by \<open>2 * numCols - 1\<close> only, none of which is zero.
\<close>

fun divide_number :: "number \<Rightarrow> number \<Rightarrow> number" where
  "divide_number NaN _ = NaN"
| "divide_number _ NaN = NaN"
| "divide_number (Num a) (Num b) =
    (if b = 0 then (if a = 0 then NaN else if 0 < a then PosInf else NegInf) else Num (a / b))"
| "divide_number (Num a) _ = Num 0"
| "divide_number PosInf (Num b) = (if b < 0 then NegInf else PosInf)"
| "divide_number NegInf (Num b) = (if b < 0 then PosInf else NegInf)"
| "divide_number _ _ = NaN"

fun inverse_number :: "number \<Rightarrow> number" where
  "inverse_number NaN = NaN"
| "inverse_number (Num a) = (if a = 0 then PosInf else Num (1 / a))"
| "inverse_number _ = Num 0"

fun abs_number :: "number \<Rightarrow> number" where
  "abs_number NaN = NaN"
| "abs_number (Num a) = Num \<bar>a\<bar>"
| "abs_number _ = PosInf"

fun less_eq_number :: "number \<Rightarrow> number \<Rightarrow> bool" where
  "less_eq_number NaN _ = False"
| "less_eq_number _ NaN = False"
| "less_eq_number (Num a) (Num b) = (a \<le> b)"
| "less_eq_number NegInf _ = True"
| "less_eq_number _ PosInf = True"
| "less_eq_number _ _ = False"

fun less_number :: "number \<Rightarrow> number \<Rightarrow> bool" where
  "less_number NaN _ = False"
| "less_number _ NaN = False"
| "less_number (Num a) (Num b) = (a < b)"
| "less_number NegInf NegInf = False"
| "less_number NegInf _ = True"
| "less_number PosInf _ = False"
| "less_number _ PosInf = True"
| "less_number _ _ = False"

instance ..

end

text \<open>ToBoolean on a number: \<open>0\<close> and \<open>NaN\<close> are falsy.\<close>

fun truthy_number :: "number \<Rightarrow> bool" where
  "truthy_number NaN = False"
| "truthy_number (Num a) = (a \<noteq> 0)"
| "truthy_number _ = True"

text \<open>ToBoolean on a string: only the empty string is falsy.\<close>

definition truthy_str :: "string \<Rightarrow> bool" where
  "truthy_str s = (s \<noteq> [])"

text \<open>
  An optional property or attribute: \<open>None\<close> is \<open>undefined\<close>. A comparison with
  \<open>undefined\<close> converts it to \<open>NaN\<close> and is false.
\<close>

fun toNumber :: "real option \<Rightarrow> number" where
  "toNumber None = NaN"
| "toNumber (Some a) = Num a"

section \<open>Defaults\<close>

text \<open>The module-level \<open>defaults\<close> object: the duration and the colors by key.\<close>

definition duration :: nat where
  "duration = 300"

definition colors :: "(string \<times> string) list" where
  "colors =
    [(''hh'', ''#f15854''),
     (''h'', ''#faa43a''),
     (''l'', ''#faa43a''),
     (''ll'', ''#f15854''),
     (''default'', ''#5da5da''),
     (''threshold'', ''#e4e4ea''),
     (''background'', ''#e4e4ea''),
     (''reference'', ''#242326''),
     (''labels'', ''#242326''),
     (''borders'', ''#e4e4ea'')]"

text \<open>\<open>defaults.colors[k]\<close>: \<open>None\<close> is \<open>undefined\<close>, for a key the object lacks.\<close>

definition color_of :: "string \<Rightarrow> string option" where
  "color_of k = map_of colors k"

definition colors_hh :: string where "colors_hh = ''#f15854''"
definition colors_h :: string where "colors_h = ''#faa43a''"
definition colors_l :: string where "colors_l = ''#faa43a''"
definition colors_ll :: string where "colors_ll = ''#f15854''"
definition colors_default :: string where "colors_default = ''#5da5da''"
definition colors_threshold :: string where "colors_threshold = ''#e4e4ea''"
definition colors_background :: string where "colors_background = ''#e4e4ea''"
definition colors_reference :: string where "colors_reference = ''#242326''"
definition colors_labels :: string where "colors_labels = ''#242326''"
definition colors_borders :: string where "colors_borders = ''#e4e4ea''"

section \<open>Data\<close>

text \<open>
  A column of the chart, as the module's header documents it: \<open>name\<close> and
  \<open>value\<close> are required, \<open>color\<close>, \<open>reference\<close> and \<open>error\<close> are optional
  (\<open>None\<close> is \<open>undefined\<close>), and \<open>error\<close> has any of \<open>h\<close> and \<open>l\<close>. The tooltip
  property, read by the mouse handlers only, is left out with them. A name that is
  taken in Isabelle carries a prime: \<open>value'\<close>, \<open>h'\<close>, \<open>l'\<close>, \<open>top'\<close>, \<open>max'\<close>,
  \<open>min'\<close>.
\<close>

record error_range =
  h' :: "real option"
  l' :: "real option"

record datapoint =
  name :: string
  value' :: real
  color :: "string option"
  reference :: "real option"
  error :: "error_range option"

section \<open>Utility methods\<close>

text \<open>
  The thresholds object: the keys of the JSON object in their order, each with its
  number. \<open>t.l\<close> is \<open>map_of t ''l''\<close>, \<open>undefined\<close> when the key is absent.
\<close>

type_synonym thresholds = "(string \<times> real) list"

text \<open>
  \<open>getColor(v, t)\<close>. \<open>t\<close> is the thresholds object or \<open>null\<close> (\<open>None\<close>). The
  source first replaces \<open>v\<close> by \<open>parseFloat(v)\<close>, which gives a number back as it
  is. The low branch is evaluated first and the high branch after it, each
  assigning \<open>color\<close>.
\<close>

definition getColor :: "real \<Rightarrow> thresholds option \<Rightarrow> string" where
  "getColor v t =
    (case t of
      None \<Rightarrow> colors_default
    | Some t \<Rightarrow>
        (let color = colors_default;
             color = (if Num v \<le> toNumber (map_of t ''l'')
                      then (if Num v \<le> toNumber (map_of t ''ll'') then colors_ll else colors_l)
                      else color);
             color = (if Num v \<ge> toNumber (map_of t ''h'')
                      then (if Num v \<ge> toNumber (map_of t ''hh'') then colors_hh else colors_h)
                      else color)
         in color))"

definition getFontSize :: "number \<Rightarrow> number" where
  "getFontSize colWidth =
    (let size = colWidth * Num 0.6;
         size = (if size < Num 9 then Num 9 else size)
     in size)"

definition getTickCount :: "number \<Rightarrow> number" where
  "getTickCount height = height / Num 20"

record margins =
  left :: number
  right :: number
  bottom :: number
  top' :: number

text \<open>
  \<open>Number.prototype.toString\<close> belongs to the host and prints the shortest decimal
  that reads back as the same double. The utility methods use only the length of
  what it prints, so they take it as the parameter \<open>toString\<close>.
\<close>

definition numChars :: "(number \<Rightarrow> string) \<Rightarrow> number \<Rightarrow> number \<Rightarrow> nat" where
  "numChars toString mx mn = max (length (toString mx)) (length (toString mn))"

definition getMargins :: "(number \<Rightarrow> string) \<Rightarrow> number \<Rightarrow> number \<Rightarrow> number \<Rightarrow> bool \<Rightarrow> bool \<Rightarrow> margins" where
  "getMargins toString colWidth mx mn showXAxis showYAxis =
    (let numChars = numChars toString mx mn;
         left = (if showYAxis then getFontSize colWidth * Num (real numChars) else Num 0);
         bottom = (if showXAxis then Num 1.3 * getFontSize colWidth else Num 1);
         top = Num 0.5 * getFontSize colWidth
     in \<lparr>left = left, right = Num 5, bottom = bottom, top' = top\<rparr>)"

text \<open>
  \<open>getColWidth(width, numCols, max, min, showYAxis)\<close>. \<open>numCols\<close> is the length of
  the data array, so \<open>2 * numCols - 1\<close> is an odd integer and never zero.
\<close>

definition getColWidth :: "(number \<Rightarrow> string) \<Rightarrow> number \<Rightarrow> nat \<Rightarrow> number \<Rightarrow> number \<Rightarrow> bool \<Rightarrow> number" where
  "getColWidth toString width numCols mx mn showYAxis =
    (let numChars = numChars toString mx mn;
         colWidth = (if width / Num (2 * real numCols - 1) < Num 20
                     then width / Num (2 * real numCols - 1) else Num 20);
         colWidth = (if showYAxis
                     then (if (width - Num (10 * real numChars)) / Num (2 * real numCols - 1) < Num 20
                           then (width - Num (10 * real numChars)) / Num (2 * real numCols - 1)
                           else Num 20)
                     else colWidth)
     in colWidth)"


section \<open>The drawing library\<close>

text \<open>
  Modelled from the spec: the linear scale of the drawing library
  (\<open>d3.scale.linear\<close>), which the repository imports and does not contain. The
  spec describes it as the linear map from the data domain to the pixel range:
  the start of the domain goes to the start of the range and the end to the end.
  The position \<open>t\<close> of \<open>x\<close> in the domain is \<open>(x - d0) / (d1 - d0)\<close> and its image
  is \<open>r0 + t * (r1 - r0)\<close>. On a domain of a single point, on which the spec is
  silent, the library's divisor is infinite and the position of every number is
  0; the x-scale of a chart with one column is such a scale.
\<close>

record scale =
  domain :: "number \<times> number"
  range' :: "number \<times> number"

definition linear :: "number \<times> number \<Rightarrow> number \<times> number \<Rightarrow> scale" where
  "linear d r = \<lparr>domain = d, range' = r\<rparr>"

definition apply_scale :: "scale \<Rightarrow> number \<Rightarrow> number" where
  "apply_scale s x =
    (case (domain s, range' s) of
      ((d0, d1), (r0, r1)) \<Rightarrow>
        (let t = (if d0 = d1 then (x - d0) * Num 0 else (x - d0) / (d1 - d0))
         in r0 + t * (r1 - r0)))"

text \<open>
  An element of the drawing: its tag, its attributes in the order in which they
  were first set, and its text. The value of an attribute is a number or a string.
\<close>

datatype attr_value = N number | S string

record element =
  tag :: string
  attrs :: "(string \<times> attr_value) list"
  content :: string

text \<open>
  \<open>.attr(name, v)\<close> on one element. The library sets the attribute, and removes
  it when the value is \<open>null\<close> or \<open>undefined\<close> (\<open>None\<close>).
\<close>

definition attr :: "string \<Rightarrow> attr_value option \<Rightarrow> element \<Rightarrow> element" where
  "attr k v e =
    (case v of
      None \<Rightarrow> e\<lparr>attrs := AList.delete k (attrs e)\<rparr>
    | Some a \<Rightarrow> e\<lparr>attrs := AList.update k a (attrs e)\<rparr>)"

text \<open>
  \<open>.append(tag)\<close> followed by a chain of \<open>.attr\<close> calls, applied in their order.
  A transition is represented by the values it ends in: an attribute that the
  chain sets before \<open>.transition()\<close> and again after it has the later value.
  The duration and the frames in between are not modelled, nor are the mouse
  handlers that \<open>.on\<close> registers.
\<close>

definition append :: "string \<Rightarrow> (string \<times> attr_value option) list \<Rightarrow> element" where
  "append t chain = foldl (\<lambda>e (k, v). attr k v e) \<lparr>tag = t, attrs = [], content = []\<rparr> chain"

text \<open>The class names of an element: its class attribute split at the spaces.\<close>

fun tokens :: "string \<Rightarrow> string \<Rightarrow> string list" where
  "tokens acc [] = (if acc = [] then [] else [acc])"
| "tokens acc (c # cs) =
    (if c = CHR '' '' then (if acc = [] then tokens [] cs else acc # tokens [] cs)
     else tokens (acc @ [c]) cs)"

definition classList :: "element \<Rightarrow> string list" where
  "classList e = (case map_of (attrs e) ''class'' of Some (S c) \<Rightarrow> tokens [] c | _ \<Rightarrow> [])"

text \<open>
  The selectors of the source have the forms \<open>tag\<close>, \<open>.class\<close> and \<open>tag.class\<close>:
  the part before the dot, when not empty, is the element's tag and the part after
  it one of its class names.
\<close>

definition matches :: "string \<Rightarrow> element \<Rightarrow> bool" where
  "matches sel e =
    (let t = takeWhile (\<lambda>c. c \<noteq> CHR ''.'') sel;
         c = dropWhile (\<lambda>c. c \<noteq> CHR ''.'') sel
     in (t = [] \<or> tag e = t) \<and> (c = [] \<or> tl c \<in> set (classList e)))"

text \<open>
  \<open>svg.selectAll(sel)\<close>: the selected nodes in document order, each given by its
  position among the children of the svg element.
\<close>

definition selectAll :: "string \<Rightarrow> element list \<Rightarrow> nat list" where
  "selectAll sel svg = filter (\<lambda>j. matches sel (svg ! j)) [0..<length svg]"

text \<open>
  \<open>svg.selectAll(sel).data(data).enter()\<close>: the library joins the data to the
  selected nodes by index; the entering data are those beyond the nodes found,
  each with its index in \<open>data\<close>.
\<close>

definition enter :: "string \<Rightarrow> 'a list \<Rightarrow> element list \<Rightarrow> (nat \<times> 'a) list" where
  "enter sel data svg = drop (length (selectAll sel svg)) (enumerate 0 data)"

section \<open>The configuration\<close>

text \<open>
  The \<open>config\<close> object that \<open>link\<close> builds. \<open>baseline\<close> and \<open>thresholds\<close> are
  \<open>null\<close> (\<open>None\<close>) when not given. \<open>config.defaults\<close> is the constant object of
  the section on defaults. Where a number is expected, \<open>null\<close> converts to 0.
\<close>

record config =
  width :: number
  height :: number
  max' :: number
  min' :: number
  baseline :: "number option"
  thresholds :: "thresholds option"
  data :: "datapoint list"
  colWidth :: number
  stroke :: number
  marginTop :: number
  marginBottom :: number
  marginLeft :: number
  marginRight :: number
  showColoredThresholds :: bool
  showTooltip :: bool
  tooltip :: element
  yScale :: scale
  xScale :: scale
  yAxisLabelScale :: scale

fun nullToNumber :: "number option \<Rightarrow> number" where
  "nullToNumber None = Num 0"
| "nullToNumber (Some b) = b"

text \<open>ToBoolean on \<open>config.baseline\<close>: \<open>null\<close> is falsy.\<close>

fun truthy_baseline :: "number option \<Rightarrow> bool" where
  "truthy_baseline None = False"
| "truthy_baseline (Some b) = truthy_number b"

text \<open>
  \<open>errorBars(d, i, config)\<close>: the x/y/stroke values of the lines of an error bar.
  \<open>xCenter\<close> is set only when the column has an error range.
\<close>

record error_lines =
  x1 :: number
  x2 :: number
  y1 :: number
  y2 :: number
  stroke :: number
  xCenter :: "number option"

definition errorBars :: "datapoint \<Rightarrow> nat \<Rightarrow> config \<Rightarrow> error_lines" where
  "errorBars d i config =
    (let error0 = \<lparr>x1 = Num 0, x2 = Num 0, y1 = Num 0, y2 = Num 0, stroke = Num 0, xCenter = None\<rparr>
     in case datapoint.error d of
          None \<Rightarrow> error0
        | Some e \<Rightarrow>
           (let xi = apply_scale (xScale config) (Num (real i));
                ys = (\<lambda>v. apply_scale (yScale config) v);
                ex1 = (if colWidth config > Num 10 then xi + colWidth config * Num 0.25 else xi);
                exCenter = xi + colWidth config * Num 0.5;
                ex2 = (if colWidth config > Num 10 then xi + colWidth config * Num 0.75
                       else xi + colWidth config);
                (ey1, ey2) =
                  (if truthy_baseline (baseline config)
                   then
                     (let b = nullToNumber (baseline config);
                          baselineY = height config - marginBottom config + marginTop config - ys b
                      in ((if toNumber (h' e) \<ge> b
                           then baselineY - \<bar>ys b - ys (toNumber (h' e))\<bar>
                           else baselineY + \<bar>ys b - ys (toNumber (h' e))\<bar>),
                          (if toNumber (l' e) \<ge> b
                           then baselineY - \<bar>ys b - ys (toNumber (l' e))\<bar>
                           else baselineY + \<bar>ys b - ys (toNumber (l' e))\<bar>)))
                   else
                     (height config - marginBottom config + marginTop config - ys (toNumber (h' e)),
                      height config - marginBottom config + marginTop config - ys (toNumber (l' e))))
            in \<lparr>x1 = ex1, x2 = ex2, y1 = ey1, y2 = ey2, stroke = Num 1, xCenter = Some exCenter\<rparr>))"

section \<open>Rendering methods\<close>

text \<open>
  Each method takes the children of the svg element and returns them with the
  elements it appends. \<open>config.xScale(i)\<close> and \<open>config.yScale(v)\<close> are
  \<open>scale_x config i\<close> and \<open>scale_y config v\<close>. The tooltip methods run in the mouse
  handlers only and are not modelled.
\<close>

definition scale_x :: "config \<Rightarrow> nat \<Rightarrow> number" where
  "scale_x config i = apply_scale (xScale config) (Num (real i))"

definition scale_y :: "config \<Rightarrow> number \<Rightarrow> number" where
  "scale_y config v = apply_scale (yScale config) v"

abbreviation num :: "number \<Rightarrow> attr_value option" where
  "num x \<equiv> Some (N x)"

abbreviation str :: "string \<Rightarrow> attr_value option" where
  "str x \<equiv> Some (S x)"

text \<open>\<open>d.color ? d.color : getColor(d.value, config.thresholds)\<close>\<close>

definition fill_of :: "datapoint \<Rightarrow> config \<Rightarrow> string" where
  "fill_of d config =
    (case color d of
      Some c \<Rightarrow> (if truthy_str c then c else getColor (value' d) (thresholds config))
    | None \<Rightarrow> getColor (value' d) (thresholds config))"

definition renderBackgrounds :: "config \<Rightarrow> element list \<Rightarrow> element list" where
  "renderBackgrounds config svg =
    svg @ map (\<lambda>(i, d). append ''rect''
        [(''class'', str ''bg''),
         (''x'', num (scale_x config i)),
         (''y'', num (marginTop config)),
         (''width'', num (colWidth config)),
         (''height'', num (height config - marginTop config - marginBottom config)),
         (''fill'', str colors_background)])
      (enter ''rect.bg'' (data config) svg)"

text \<open>
  The loop \<open>for (threshold in config.thresholds)\<close> visits the keys of the object
  in their order, and no key when the object is \<open>null\<close>.
\<close>

definition renderThresholdMarkers :: "config \<Rightarrow> element list \<Rightarrow> element list" where
  "renderThresholdMarkers config svg =
    svg @ map (\<lambda>(threshold, v).
        (let y = height config - marginBottom config + marginTop config - scale_y config (Num v)
         in append ''line''
              [(''x1'', num (marginLeft config)),
               (''x2'', num (width config - marginRight config)),
               (''y1'', num y),
               (''y2'', num y),
               (''stroke-width'', num (Num 1)),
               (''stroke'', (if showColoredThresholds config then map_option S (color_of threshold)
                             else str colors_threshold)),
               (''shape-rendering'', str ''crispEdges'')]))
      (case thresholds config of None \<Rightarrow> [] | Some t \<Rightarrow> t)"

definition renderXAxis :: "(number \<Rightarrow> string) \<Rightarrow> config \<Rightarrow> element list \<Rightarrow> element list" where
  "renderXAxis toString config svg =
    svg @ map (\<lambda>(i, d). (append ''text''
        [(''text-anchor'', str ''middle''),
         (''x'', num (scale_x config i + colWidth config / Num 2)),
         (''y'', num (height config - marginBottom config + Num 1.3 * getFontSize (colWidth config))),
         (''font-family'', str ''sans-serif''),
         (''font-size'', str (toString (getFontSize (colWidth config)) @ ''px'')),
         (''fill'', str colors_labels)])\<lparr>content := name d\<rparr>)
      (enter ''text'' (data config) svg)"

text \<open>
  The y-axis is a group that the library's axis generator fills, from the tick
  count \<open>getTickCount(config.height - config.marginBottom)\<close>, the tick size
  \<open>getFontSize(config.colWidth) / 2\<close> and \<open>config.yAxisLabelScale\<close>. The ticks and
  labels it creates inside the group are the library's; the model has the group.
\<close>

definition renderYAxis :: "(number \<Rightarrow> string) \<Rightarrow> config \<Rightarrow> element list \<Rightarrow> element list" where
  "renderYAxis toString config svg =
    svg @ [append ''g''
        [(''transform'', str (''translate('' @ toString (marginLeft config) @ '',0)'')),
         (''font-family'', str ''sans-serif''),
         (''font-size'', str (toString (getFontSize (colWidth config)) @ ''px'')),
         (''fill'', str colors_labels)]]"

text \<open>
  The rectangle that \<open>renderDataFromBaseline\<close> appends for the column \<open>d\<close> at
  the index \<open>i\<close>: the attributes before the transition, then those it ends in.
\<close>

definition baseline_rect :: "config \<Rightarrow> nat \<Rightarrow> datapoint \<Rightarrow> element" where
  "baseline_rect config i d =
    (let b = nullToNumber (baseline config);
         baselineY = height config - marginBottom config + marginTop config - scale_y config b
     in append ''rect''
          [(''class'', str ''data''),
           (''shape-rendering'', str ''crispEdges''),
           (''x'', num (scale_x config i)),
           (''y'', num baselineY),
           (''height'', num (Num 0.000001)),
           (''width'', num (colWidth config)),
           (''fill'', str (fill_of d config)),
           (''y'', num (if Num (value' d) \<ge> b
                        then baselineY - \<bar>scale_y config b - scale_y config (Num (value' d))\<bar>
                        else baselineY)),
           (''height'', num (if truthy_number (Num (value' d))
                             then \<bar>scale_y config b - scale_y config (Num (value' d))\<bar>
                             else Num 0))])"

definition renderDataFromBaseline :: "config \<Rightarrow> element list \<Rightarrow> element list" where
  "renderDataFromBaseline config svg =
    (let b = nullToNumber (baseline config);
         baselineY = height config - marginBottom config + marginTop config - scale_y config b
     in svg @ map (\<lambda>(i, d). baseline_rect config i d) (enter ''rect.data'' (data config) svg)
      @ [append ''line''
          [(''x1'', num (marginLeft config)),
           (''x2'', num (width config - marginRight config)),
           (''y1'', num baselineY),
           (''y2'', num baselineY),
           (''stroke-width'', num (config.stroke config)),
           (''stroke'', str colors_reference),
           (''shape-rendering'', str ''crispEdges'')]])"

text \<open>The rectangle that \<open>renderDataFromAxis\<close> appends for the column \<open>d\<close> at \<open>i\<close>.\<close>

definition axis_rect :: "config \<Rightarrow> nat \<Rightarrow> datapoint \<Rightarrow> element" where
  "axis_rect config i d =
    append ''rect''
      [(''shape-rendering'', str ''crispEdges''),
       (''class'', str ''data''),
       (''width'', num (colWidth config)),
       (''height'', num (Num 0.000001)),
       (''y'', num (height config - marginBottom config + marginTop config)),
       (''fill'', str (fill_of d config)),
       (''x'', num (scale_x config i)),
       (''y'', num (height config - marginBottom config + marginTop config
                     - scale_y config (Num (value' d)))),
       (''height'', num (scale_y config (Num (value' d)) - marginTop config))]"

definition renderDataFromAxis :: "config \<Rightarrow> element list \<Rightarrow> element list" where
  "renderDataFromAxis config svg =
    svg @ map (\<lambda>(i, d). axis_rect config i d) (enter ''rect.data'' (data config) svg)"

text \<open>The decimal numeral of an array index, as string concatenation prints it.\<close>

function decimal :: "nat \<Rightarrow> string" where
  "decimal n =
    (if n < 10 then [''0123456789'' ! n]
     else decimal (n div 10) @ [''0123456789'' ! (n mod 10)])"
  by pat_completeness auto
termination
  by (relation "measure id") auto

declare decimal.simps [simp del]

definition renderErrorBars :: "config \<Rightarrow> element list \<Rightarrow> element list" where
  "renderErrorBars config svg =
    (let svg = svg @ map (\<lambda>(i, d). append ''line''
           [(''class'', str (''error-center col-'' @ decimal i)),
            (''x1'', map_option N (xCenter (errorBars d i config))),
            (''x2'', map_option N (xCenter (errorBars d i config))),
            (''y1'', num (y1 (errorBars d i config))),
            (''y2'', num (y2 (errorBars d i config))),
            (''stroke-width'', num (stroke (errorBars d i config))),
            (''stroke'', str colors_reference),
            (''shape-rendering'', str ''crispEdges'')])
         (enter ''rect.error'' (data config) svg);
         svg = svg @ map (\<lambda>(i, d). append ''line''
           [(''class'', str ''error-high''),
            (''x1'', num (x1 (errorBars d i config))),
            (''x2'', num (x2 (errorBars d i config))),
            (''y1'', num (y1 (errorBars d i config))),
            (''y2'', num (y1 (errorBars d i config))),
            (''stroke-width'', num (stroke (errorBars d i config))),
            (''stroke'', str colors_reference),
            (''shape-rendering'', str ''crispEdges'')])
         (enter ''rect.error'' (data config) svg);
         svg = svg @ map (\<lambda>(i, d). append ''line''
           [(''class'', str ''error-low''),
            (''x1'', num (x1 (errorBars d i config))),
            (''x2'', num (x2 (errorBars d i config))),
            (''y1'', num (y2 (errorBars d i config))),
            (''y2'', num (y2 (errorBars d i config))),
            (''stroke-width'', num (stroke (errorBars d i config))),
            (''stroke'', str colors_reference),
            (''shape-rendering'', str ''crispEdges'')])
         (enter ''rect.error'' (data config) svg)
     in svg)"

definition renderBorders :: "config \<Rightarrow> element list \<Rightarrow> element list" where
  "renderBorders config svg =
    svg @ [append ''line''
             [(''x1'', num (marginLeft config)),
              (''x2'', num (width config - marginRight config)),
              (''y1'', num (marginTop config)),
              (''y2'', num (marginTop config)),
              (''stroke-width'', num (Num 1)),
              (''stroke'', str colors_borders),
              (''shape-rendering'', str ''crispEdges'')],
           append ''line''
             [(''x1'', num (marginLeft config)),
              (''x2'', num (width config - marginRight config)),
              (''y1'', num (height config - marginBottom config)),
              (''y2'', num (height config - marginBottom config)),
              (''stroke-width'', num (Num 1)),
              (''stroke'', str colors_borders),
              (''shape-rendering'', str ''crispEdges'')]]"

text \<open>\<open>d.reference || 0\<close>: 0 when the reference is \<open>undefined\<close> or 0.\<close>

fun reference_or_0 :: "real option \<Rightarrow> number" where
  "reference_or_0 None = Num 0"
| "reference_or_0 (Some r) = Num r"

text \<open>\<open>if (d.reference)\<close>: a reference that is \<open>undefined\<close> or 0 is falsy.\<close>

fun truthy_reference :: "real option \<Rightarrow> bool" where
  "truthy_reference None = False"
| "truthy_reference (Some r) = truthy_number (Num r)"

text \<open>The line that \<open>renderReference\<close> appends for the column \<open>d\<close> at \<open>i\<close>.\<close>

definition reference_line :: "config \<Rightarrow> nat \<Rightarrow> datapoint \<Rightarrow> element" where
  "reference_line config i d =
    append ''line''
      [(''class'', str ''reference''),
       (''x1'', num (scale_x config i - Num 1)),
       (''x2'', num (scale_x config i + colWidth config + Num 1)),
       (''y1'', num (height config - marginBottom config + marginTop config
                      - scale_y config (reference_or_0 (reference d)))),
       (''y2'', num (height config - marginBottom config + marginTop config
                      - scale_y config (reference_or_0 (reference d)))),
       (''stroke-width'', num (if truthy_reference (reference d) then config.stroke config else Num 0)),
       (''stroke'', str colors_reference),
       (''shape-rendering'', str ''crispEdges'')]"

definition renderReference :: "config \<Rightarrow> element list \<Rightarrow> element list" where
  "renderReference config svg =
    svg @ map (\<lambda>(i, d). reference_line config i d) (enter ''line.data'' (data config) svg)"

section \<open>Update methods\<close>

text \<open>
  An exception of the host: \<open>JSON.parse\<close> throws \<open>SyntaxError\<close>, and reading a
  property of \<open>undefined\<close> throws \<open>TypeError\<close>.
\<close>

datatype exception = SyntaxError | TypeError

definition bind :: "exception + 'a \<Rightarrow> ('a \<Rightarrow> exception + 'b) \<Rightarrow> exception + 'b" where
  "bind m f = (case m of Inl x \<Rightarrow> Inl x | Inr a \<Rightarrow> f a)"

text \<open>
  \<open>.transition().attr(name, function(d, i) {...})\<close> on a selection: the library
  calls the function for the nodes in their order, \<open>i\<close> counting them from 0, and
  the attribute of each node ends in the value returned. An exception in the
  function ends the call.
\<close>

fun attr_fn :: "string \<Rightarrow> (nat \<Rightarrow> exception + attr_value) \<Rightarrow> nat \<Rightarrow> nat list \<Rightarrow> element list
    \<Rightarrow> exception + element list" where
  "attr_fn k f i [] svg = Inr svg"
| "attr_fn k f i (j # js) svg =
    (case f i of
      Inl x \<Rightarrow> Inl x
    | Inr v \<Rightarrow> attr_fn k f (Suc i) js (svg[j := attr k (Some v) (svg ! j)]))"

text \<open>
  \<open>config.data[i]\<close> followed by a property access: beyond the end of the array
  the element is \<open>undefined\<close> and the access throws.
\<close>

definition data_at :: "config \<Rightarrow> nat \<Rightarrow> exception + datapoint" where
  "data_at config i = (if i < length (data config) then Inr (data config ! i) else Inl TypeError)"

definition updateDataFromBaseline :: "config \<Rightarrow> element list \<Rightarrow> exception + element list" where
  "updateDataFromBaseline config svg =
    (let b = nullToNumber (baseline config);
         baselineY = height config - marginBottom config + marginTop config - scale_y config b;
         sel = selectAll ''.data'' svg
     in bind (attr_fn ''fill'' (\<lambda>i. bind (data_at config i) (\<lambda>d. Inr (S (fill_of d config)))) 0 sel svg)
          (\<lambda>svg. bind (attr_fn ''y'' (\<lambda>i. bind (data_at config i) (\<lambda>d. Inr (N
              (if Num (value' d) \<ge> b
               then baselineY - \<bar>scale_y config b - scale_y config (Num (value' d))\<bar>
               else baselineY)))) 0 sel svg)
          (\<lambda>svg. attr_fn ''height'' (\<lambda>i. bind (data_at config i) (\<lambda>d. Inr (N
              (if truthy_number (Num (value' d))
               then \<bar>scale_y config b - scale_y config (Num (value' d))\<bar>
               else Num 0)))) 0 sel svg)))"

definition updateDataFromAxis :: "config \<Rightarrow> element list \<Rightarrow> exception + element list" where
  "updateDataFromAxis config svg =
    (let sel = selectAll ''.data'' svg
     in bind (attr_fn ''fill'' (\<lambda>i. bind (data_at config i) (\<lambda>d. Inr (S (fill_of d config)))) 0 sel svg)
          (\<lambda>svg. bind (attr_fn ''y'' (\<lambda>i. bind (data_at config i) (\<lambda>d. Inr (N
              (height config - marginBottom config + marginTop config
                - scale_y config (Num (value' d)))))) 0 sel svg)
          (\<lambda>svg. attr_fn ''height'' (\<lambda>i. bind (data_at config i) (\<lambda>d. Inr (N
              (scale_y config (Num (value' d)) - marginTop config)))) 0 sel svg)))"

text \<open>
  \<open>updateErrorBars\<close> selects the centre lines and, among their descendants, the
  elements of tag \<open>col-0\<close>, and does nothing with the selection. The lines have
  no children, so the inner selection is empty.
\<close>

definition updateErrorBars :: "config \<Rightarrow> element list \<Rightarrow> exception + element list" where
  "updateErrorBars config svg =
    (let sel = selectAll ''.error-center'' svg;
         sel = concat (map (\<lambda>j. selectAll ''col-0'' []) sel)
     in Inr svg)"

definition updateReference :: "config \<Rightarrow> element list \<Rightarrow> exception + element list" where
  "updateReference config svg =
    (let sel = selectAll ''.reference'' svg
     in bind (attr_fn ''y1'' (\<lambda>i. bind (data_at config i) (\<lambda>d. Inr (N
              (height config - marginBottom config + marginTop config
                - scale_y config (reference_or_0 (reference d)))))) 0 sel svg)
          (\<lambda>svg. attr_fn ''y2'' (\<lambda>i. bind (data_at config i) (\<lambda>d. Inr (N
              (height config - marginBottom config + marginTop config
                - scale_y config (reference_or_0 (reference d)))))) 0 sel svg))"

section \<open>The host's conversions\<close>

text \<open>
  \<open>parseFloat\<close> and \<open>parseInt\<close> of the host, on the strings of the attributes:
  white space is skipped, then a sign, then the longest prefix that is a decimal
  literal (for \<open>parseInt\<close> a run of decimal digits, or of hexadecimal digits after
  \<open>0x\<close>) is read, and what follows it is ignored; with no such prefix the result
  is \<open>NaN\<close>. The value is the exact value of the literal; \<open>parseFloat\<close> also
  reads the literal \<open>Infinity\<close>.
\<close>

definition isWhiteSpace :: "char \<Rightarrow> bool" where
  "isWhiteSpace c = (c \<in> set [CHR 0x09, CHR 0x0A, CHR 0x0B, CHR 0x0C, CHR 0x0D, CHR 0x20])"

definition isDigit :: "char \<Rightarrow> bool" where
  "isDigit c = (c \<in> set ''0123456789'')"

definition isHexDigit :: "char \<Rightarrow> bool" where
  "isHexDigit c = (c \<in> set ''0123456789abcdefABCDEF'')"

definition digitValue :: "char \<Rightarrow> nat" where
  "digitValue c =
    (let n = (of_char c :: nat)
     in if isDigit c then n - 48 else if 97 \<le> n then n - 87 else n - 55)"

definition digitsValue :: "nat \<Rightarrow> string \<Rightarrow> nat" where
  "digitsValue radix ds = foldl (\<lambda>a c. radix * a + digitValue c) 0 ds"

definition signOf :: "string \<Rightarrow> real \<times> string" where
  "signOf s =
    (case s of
      [] \<Rightarrow> (1, [])
    | c # r \<Rightarrow> (if c = CHR ''-'' then (- 1, r) else if c = CHR ''+'' then (1, r) else (1, s)))"

text \<open>The factor of the exponent part at the head of a string, 1 when it has none.\<close>

definition exponentPart :: "string \<Rightarrow> real" where
  "exponentPart s =
    (case s of
      [] \<Rightarrow> 1
    | c # r \<Rightarrow>
        (if c = CHR ''e'' \<or> c = CHR ''E''
         then (case signOf r of
                 (sg, ds) \<Rightarrow>
                   (let e = takeWhile isDigit ds
                    in if e = [] then 1
                       else if sg < 0 then 1 / 10 ^ digitsValue 10 e
                       else 10 ^ digitsValue 10 e))
         else 1))"

definition parseFloat :: "string \<Rightarrow> number" where
  "parseFloat string =
    (case signOf (dropWhile isWhiteSpace string) of
      (sg, s) \<Rightarrow>
        (let ip = takeWhile isDigit s;
             s1 = dropWhile isDigit s;
             dot = (case s1 of [] \<Rightarrow> False | c # r \<Rightarrow> c = CHR ''.'');
             fp = (if dot then takeWhile isDigit (tl s1) else []);
             s2 = (if dot then dropWhile isDigit (tl s1) else s1)
         in if ip = [] \<and> fp = []
            then (if take 8 s = ''Infinity'' then (if sg < 0 then NegInf else PosInf) else NaN)
            else Num (sg * (real (digitsValue 10 ip) + real (digitsValue 10 fp) / 10 ^ length fp)
                        * exponentPart s2)))"

definition parseInt :: "string \<Rightarrow> number" where
  "parseInt string =
    (case signOf (dropWhile isWhiteSpace string) of
      (sg, s) \<Rightarrow>
        (if take 2 s = ''0x'' \<or> take 2 s = ''0X''
         then (let ds = takeWhile isHexDigit (drop 2 s)
               in if ds = [] then NaN else Num (sg * real (digitsValue 16 ds)))
         else (let ds = takeWhile isDigit s
               in if ds = [] then NaN else Num (sg * real (digitsValue 10 ds)))))"

text \<open>
  An attribute of the component is a string, or \<open>undefined\<close> (\<open>None\<close>) when it is
  not given. It is truthy when it is a string that is not empty; as an argument
  of \<open>parseFloat\<close>, \<open>undefined\<close> is the string \<open>undefined\<close>.
\<close>

fun truthy_attr :: "string option \<Rightarrow> bool" where
  "truthy_attr None = False"
| "truthy_attr (Some s) = truthy_str s"

fun attr_string :: "string option \<Rightarrow> string" where
  "attr_string None = ''undefined''"
| "attr_string (Some s) = s"

text \<open>
  \<open>data\<close> and \<open>thresholds\<close> are JSON texts, which \<open>link\<close> hands to the host's
  \<open>JSON.parse\<close>. The model does not contain a JSON parser. It takes such an
  attribute by what the host makes of it: \<open>Absent\<close> is \<open>undefined\<close> or the empty
  string, \<open>Malformed\<close> a string that is not empty and that \<open>JSON.parse\<close> rejects,
  and \<open>Json v\<close> a string that \<open>JSON.parse\<close> accepts, with the value \<open>v\<close> it returns.
  The values are typed as the module's header documents them, an array of columns
  and an object of thresholds; a text that parses to a value of another shape is
  outside the model.
\<close>

datatype 'a json_text = Absent | Malformed | Json 'a

fun truthy_json :: "'a json_text \<Rightarrow> bool" where
  "truthy_json Absent = False"
| "truthy_json Malformed = True"
| "truthy_json (Json v) = True"

fun JSON_parse :: "'a json_text \<Rightarrow> exception + 'a" where
  "JSON_parse Absent = Inl SyntaxError"
| "JSON_parse Malformed = Inl SyntaxError"
| "JSON_parse (Json v) = Inr v"

text \<open>ToBoolean on an array: an array is an object and truthy, also when empty.\<close>

definition truthy_array :: "'a list \<Rightarrow> bool" where
  "truthy_array xs = True"

section \<open>The linking function\<close>

text \<open>The \<open>params\<close> object: the attributes of the component, as the host passes them.\<close>

record params =
  data :: "datapoint list json_text"
  thresholds :: "thresholds json_text"
  showColoredThresholds :: "string option"
  baseline :: "string option"
  showXAxis :: "string option"
  showYAxis :: "string option"
  showTooltip :: "string option"
  max' :: "string option"
  min' :: "string option"
  width :: "string option"
  height :: "string option"

text \<open>
  What \<open>link\<close> leaves behind: the variables that the closures \<open>params.render\<close>
  and \<open>params.update\<close> share, the children of the svg element in document order
  and the lines written to the console. The svg element itself, with its width
  and height, and the tooltip's \<open>div\<close> are appended to the container.
\<close>

record chart =
  params :: params
  config :: config
  showBaseline :: bool
  showXAxis :: bool
  showYAxis :: bool
  svg :: "element list"
  console :: "string list"

definition params_render :: "(number \<Rightarrow> string) \<Rightarrow> chart \<Rightarrow> chart" where
  "params_render toString chart =
    (let config = chart.config chart;
         svg = chart.svg chart;
         svg = renderBackgrounds config svg;
         svg = (if truthy_json (params.thresholds (chart.params chart))
                then renderThresholdMarkers config svg else svg);
         svg = (if chart.showXAxis chart then renderXAxis toString config svg else svg);
         svg = (if chart.showYAxis chart then renderYAxis toString config svg else svg);
         svg = (if chart.showBaseline chart then renderDataFromBaseline config svg
                else renderDataFromAxis config svg);
         svg = renderErrorBars config svg;
         svg = renderBorders config svg;
         svg = renderReference config svg
     in chart\<lparr>svg := svg\<rparr>)"

text \<open>
  \<open>params.update(newData)\<close>. When a method throws, the exception leaves \<open>update\<close>
  and the result is the exception; the attributes set before it are then not
  represented.
\<close>

definition params_update :: "chart \<Rightarrow> datapoint list \<Rightarrow> exception + chart" where
  "params_update chart newData =
    (let config = (chart.config chart)\<lparr>config.data := newData\<rparr>
     in bind (if chart.showBaseline chart then updateDataFromBaseline config (chart.svg chart)
              else updateDataFromAxis config (chart.svg chart))
          (\<lambda>svg. bind (updateErrorBars config svg)
          (\<lambda>svg. bind (updateReference config svg)
          (\<lambda>svg. Inr (chart\<lparr>config := config, svg := svg\<rparr>)))))"

text \<open>
  \<open>link(params, element)\<close>. The argument of \<open>getColWidth\<close> for \<open>showYAxis\<close> is
  \<open>config.showYAxis\<close>, a property that \<open>config\<close> does not have (the flag is the
  local variable \<open>showYAxis\<close>): it is \<open>undefined\<close>, which is falsy.
\<close>

definition link :: "(number \<Rightarrow> string) \<Rightarrow> params \<Rightarrow> exception + chart" where
  "link toString ps =
    (let showBaseline = truthy_attr (params.baseline ps);
         showXAxis = (params.showXAxis ps = Some ''true'');
         showYAxis = (params.showYAxis ps = Some ''true'');
         width = (if truthy_attr (params.width ps) then parseInt (attr_string (params.width ps))
                  else Num 150);
         height = (if truthy_attr (params.height ps) then parseInt (attr_string (params.height ps))
                   else Num 75);
         mx = (if truthy_attr (params.max' ps) then parseFloat (attr_string (params.max' ps))
               else Num 100);
         mn = (if truthy_attr (params.min' ps) then parseFloat (attr_string (params.min' ps))
               else Num 0);
         baseline = (let b = parseFloat (attr_string (params.baseline ps))
                     in if truthy_number b then Some b else None)
     in bind (if truthy_json (params.thresholds ps)
              then bind (JSON_parse (params.thresholds ps)) (\<lambda>t. Inr (Some t))
              else Inr None)
          (\<lambda>thresholds. bind (if truthy_json (params.data ps) then JSON_parse (params.data ps)
                                else Inr [])
          (\<lambda>data.
            (let config_showYAxis = False;
                 colWidth = getColWidth toString width (length data) mx mn config_showYAxis;
                 stroke = (if height \<ge> Num 150 then Num 2 else Num 1);
                 margins = getMargins toString colWidth mx mn showXAxis showYAxis;
                 config =
                   \<lparr>config.width = width,
                    config.height = height,
                    config.max' = mx,
                    config.min' = mn,
                    config.baseline = baseline,
                    config.thresholds = thresholds,
                    config.data = data,
                    colWidth = colWidth,
                    config.stroke = stroke,
                    marginTop = top' margins,
                    marginBottom = bottom margins,
                    marginLeft = left margins,
                    marginRight = right margins,
                    config.showColoredThresholds = (params.showColoredThresholds ps = Some ''true''),
                    config.showTooltip = (params.showTooltip ps = Some ''true''),
                    tooltip = \<lparr>tag = ''div'',
                               attrs = [(''style'', S ''position: absolute; z-index: 10; visibility: hidden;'')],
                               content = []\<rparr>,
                    yScale = linear (mn, mx) (top' margins, height - bottom margins),
                    xScale = linear (Num 0, Num (real (length data) - 1))
                               (left margins, width - colWidth - right margins),
                    yAxisLabelScale = linear (mn, mx) (height - bottom margins, top' margins)\<rparr>;
                 chart =
                   \<lparr>params = ps, config = config, showBaseline = showBaseline,
                    showXAxis = showXAxis, showYAxis = showYAxis, svg = [], console = []\<rparr>
             in Inr (if truthy_array data then params_render toString chart
                     else chart\<lparr>console := console chart @ [''chart-column has no data.'']\<rparr>)))))"

text \<open>
  An instance of the parameter \<open>toString\<close> for the examples: the decimal numeral
  of an integer, with its sign, and \<open>NaN\<close>. On the integers below \<open>10^21\<close> in
  magnitude this is what \<open>Number.prototype.toString\<close> prints; the examples
  apply it to such numbers only.
\<close>

definition toString_integer :: "number \<Rightarrow> string" where
  "toString_integer x =
    (case x of
      NaN \<Rightarrow> ''NaN''
    | NegInf \<Rightarrow> ''-Infinity''
    | PosInf \<Rightarrow> ''Infinity''
    | Num a \<Rightarrow> (if a < 0 then CHR ''-'' # decimal (nat \<lfloor>- a\<rfloor>) else decimal (nat \<lfloor>a\<rfloor>)))"

text \<open>
  The chart as \<open>link\<close> has it when it calls \<open>params.render\<close>, given the parsed
  thresholds \<open>t\<close> and data \<open>d\<close>: the same expressions as in \<open>link\<close>, named for
  the statements about it.
\<close>

definition link_chart :: "(number \<Rightarrow> string) \<Rightarrow> params \<Rightarrow> thresholds option \<Rightarrow> datapoint list \<Rightarrow> chart" where
  "link_chart toString ps t d =
    (let showBaseline = truthy_attr (params.baseline ps);
         showXAxis = (params.showXAxis ps = Some ''true'');
         showYAxis = (params.showYAxis ps = Some ''true'');
         width = (if truthy_attr (params.width ps) then parseInt (attr_string (params.width ps))
                  else Num 150);
         height = (if truthy_attr (params.height ps) then parseInt (attr_string (params.height ps))
                   else Num 75);
         mx = (if truthy_attr (params.max' ps) then parseFloat (attr_string (params.max' ps))
               else Num 100);
         mn = (if truthy_attr (params.min' ps) then parseFloat (attr_string (params.min' ps))
               else Num 0);
         baseline = (let b = parseFloat (attr_string (params.baseline ps))
                     in if truthy_number b then Some b else None);
         config_showYAxis = False;
         colWidth = getColWidth toString width (length d) mx mn config_showYAxis;
         stroke = (if height \<ge> Num 150 then Num 2 else Num 1);
         margins = getMargins toString colWidth mx mn showXAxis showYAxis;
         config =
           \<lparr>config.width = width,
            config.height = height,
            config.max' = mx,
            config.min' = mn,
            config.baseline = baseline,
            config.thresholds = t,
            config.data = d,
            colWidth = colWidth,
            config.stroke = stroke,
            marginTop = top' margins,
            marginBottom = bottom margins,
            marginLeft = left margins,
            marginRight = right margins,
            config.showColoredThresholds = (params.showColoredThresholds ps = Some ''true''),
            config.showTooltip = (params.showTooltip ps = Some ''true''),
            tooltip = \<lparr>tag = ''div'',
                       attrs = [(''style'', S ''position: absolute; z-index: 10; visibility: hidden;'')],
                       content = []\<rparr>,
            yScale = linear (mn, mx) (top' margins, height - bottom margins),
            xScale = linear (Num 0, Num (real (length d) - 1))
                       (left margins, width - colWidth - right margins),
            yAxisLabelScale = linear (mn, mx) (height - bottom margins, top' margins)\<rparr>
     in \<lparr>params = ps, config = config, showBaseline = showBaseline,
         showXAxis = showXAxis, showYAxis = showYAxis, svg = [], console = []\<rparr>)"

text \<open>
  Inputs for the examples: the component with no attribute given, and a column
  with a name and a value only.
\<close>

definition no_params :: params where
  "no_params =
    \<lparr>params.data = Absent, params.thresholds = Absent, params.showColoredThresholds = None,
     params.baseline = None, params.showXAxis = None, params.showYAxis = None,
     params.showTooltip = None, params.max' = None, params.min' = None,
     params.width = None, params.height = None\<rparr>"

definition column :: "string \<Rightarrow> real \<Rightarrow> datapoint" where
  "column n v = \<lparr>name = n, value' = v, color = None, reference = None, error = None\<rparr>"

text \<open>
  For the statements about \<open>update\<close>: an element that the selections of the update
  methods, \<open>.data\<close> and \<open>.reference\<close>, do not find; a rendering method that only
  appends such elements; and the rectangle of a column in the mode of the chart.
\<close>

definition chrome :: "element \<Rightarrow> bool" where
  "chrome e = (''data'' \<notin> set (classList e) \<and> ''reference'' \<notin> set (classList e))"

definition adds_chrome :: "(element list \<Rightarrow> element list) \<Rightarrow> bool" where
  "adds_chrome R = (\<forall>es. \<exists>new. R es = es @ new \<and> (\<forall>e\<in>set new. chrome e))"

definition column_rect :: "chart \<Rightarrow> nat \<Rightarrow> datapoint \<Rightarrow> element" where
  "column_rect chart i d =
    (if chart.showBaseline chart then baseline_rect (chart.config chart) i d
     else axis_rect (chart.config chart) i d)"

text \<open>
  An element \<open>e2\<close> that differs from \<open>e\<close> at most in the attributes named in
  \<open>K\<close>.
\<close>

definition touched_only :: "string set \<Rightarrow> element \<Rightarrow> element \<Rightarrow> bool" where
  "touched_only K e e2 =
    (tag e2 = tag e \<and> content e2 = content e \<and>
     (\<forall>k. k \<notin> K \<longrightarrow> map_of (attrs e2) k = map_of (attrs e) k))"

section \<open>The color resolver\<close>

lemma getColor_null: "getColor v None = colors_default"
  by (simp add: getColor_def)

text \<open>
  Claim C3, as the code has it. For thresholds with \<open>l\<close> and \<open>ll\<close> defined and a
  value that the high branch does not match (\<open>h\<close> is absent or \<open>v < h\<close>): if
  \<open>v \<le> l\<close> and \<open>v > ll\<close> the color is the low color, and if \<open>v \<le> ll\<close> and
  \<open>v \<le> l\<close> it is the very-low color. For thresholds with \<open>h\<close> and \<open>hh\<close> defined:
  if \<open>v \<ge> h\<close> and \<open>v < hh\<close> the color is the high color, and if \<open>v \<ge> hh\<close> and
  \<open>v \<ge> h\<close> it is the very-high color. The inner comparison of each branch is
  reached only through the outer one, and the high branch assigns last.
\<close>

theorem getColor_thresholds:
  "(map_of t ''l'' = Some lo \<and> map_of t ''ll'' = Some vlo \<and> \<not> Num v \<ge> toNumber (map_of t ''h'') \<longrightarrow>
      (v \<le> lo \<and> v > vlo \<longrightarrow> getColor v (Some t) = colors_l) \<and>
      (v \<le> vlo \<and> v \<le> lo \<longrightarrow> getColor v (Some t) = colors_ll)) \<and>
   (map_of t ''h'' = Some hi \<and> map_of t ''hh'' = Some vhi \<longrightarrow>
      (v \<ge> hi \<and> v < vhi \<longrightarrow> getColor v (Some t) = colors_h) \<and>
      (v \<ge> vhi \<and> v \<ge> hi \<longrightarrow> getColor v (Some t) = colors_hh))"
  by (auto simp add: getColor_def)

theorem getColor_thresholds_witness:
  "getColor 2 (Some [(''ll'', 1), (''l'', 3), (''h'', 7), (''hh'', 9)]) = colors_l \<and>
   getColor 1 (Some [(''ll'', 1), (''l'', 3), (''h'', 7), (''hh'', 9)]) = colors_ll \<and>
   getColor 8 (Some [(''ll'', 1), (''l'', 3), (''h'', 7), (''hh'', 9)]) = colors_h \<and>
   getColor 9 (Some [(''ll'', 1), (''l'', 3), (''h'', 7), (''hh'', 9)]) = colors_hh"
  using getColor_thresholds [of "[(''ll'', 1), (''l'', 3), (''h'', 7), (''hh'', 9)]" 3 1 2 7 9]
    getColor_thresholds [of "[(''ll'', 1), (''l'', 3), (''h'', 7), (''hh'', 9)]" 3 1 1 7 9]
    getColor_thresholds [of "[(''ll'', 1), (''l'', 3), (''h'', 7), (''hh'', 9)]" 3 1 8 7 9]
    getColor_thresholds [of "[(''ll'', 1), (''l'', 3), (''h'', 7), (''hh'', 9)]" 3 1 9 7 9]
  by simp

text \<open>
  Claim C3 as stated fails on thresholds that are inverted or overlap. With
  \<open>{l: 2, ll: 10}\<close> the value 5 is at most \<open>ll\<close> and has the default color; with
  \<open>{l: 10, ll: 2, h: 5, hh: 6}\<close> the value 7 is at most \<open>l\<close> and above \<open>ll\<close> and has
  the very-high color; with \<open>{h: 10, hh: 2}\<close> the value 5 is at least \<open>hh\<close> and has
  the default color.
\<close>

theorem getColor_thresholds_counterexample:
  "(5::real) \<le> 10 \<and> getColor 5 (Some [(''l'', 2), (''ll'', 10)]) = colors_default \<and>
   colors_default \<noteq> colors_ll \<and>
   (7::real) \<le> 10 \<and> (7::real) > 2 \<and>
   getColor 7 (Some [(''l'', 10), (''ll'', 2), (''h'', 5), (''hh'', 6)]) = colors_hh \<and>
   colors_hh \<noteq> colors_l \<and>
   (5::real) \<ge> 2 \<and> getColor 5 (Some [(''h'', 10), (''hh'', 2)]) = colors_default \<and>
   colors_default \<noteq> colors_hh"
  by (simp add: getColor_def colors_default_def colors_ll_def colors_hh_def colors_l_def)

text \<open>
  Claim C4. When both the low comparison \<open>v \<le> l\<close> and the high comparison
  \<open>v \<ge> h\<close> hold, whatever the order of the thresholds, the color is the one the
  high branch assigns: the very-high color when \<open>v \<ge> hh\<close> holds too, the high
  color otherwise.
\<close>

theorem getColor_high_wins:
  "map_of t ''l'' = Some lo \<Longrightarrow> map_of t ''h'' = Some hi \<Longrightarrow> v \<le> lo \<Longrightarrow> v \<ge> hi \<Longrightarrow>
   getColor v (Some t) = (if Num v \<ge> toNumber (map_of t ''hh'') then colors_hh else colors_h)"
  by (simp add: getColor_def)

theorem getColor_high_wins_witness:
  "getColor 7 (Some [(''l'', 10), (''ll'', 8), (''h'', 5), (''hh'', 6)]) = colors_hh \<and>
   getColor 7 (Some [(''l'', 10), (''ll'', 8), (''h'', 5)]) = colors_h"
  using getColor_high_wins [of "[(''l'', 10), (''ll'', 8), (''h'', 5), (''hh'', 6)]" 10 5 7]
    getColor_high_wins [of "[(''l'', 10), (''ll'', 8), (''h'', 5)]" 10 5 7]
  by simp

section \<open>The column width\<close>

lemma div_odd_antimono:
  fixes a :: real
  assumes "0 \<le> a" "1 \<le> n" "n \<le> m"
  shows "a / (2 * real m - 1) \<le> a / (2 * real n - 1)"
proof -
  have "0 < 2 * real n - 1" using assms by simp
  moreover have "2 * real n - 1 \<le> 2 * real m - 1" using assms by simp
  ultimately show ?thesis using assms(1) by (simp add: frac_le)
qed

lemma odd_nonzero: "2 * real n - 1 \<noteq> 0"
proof
  assume "2 * real n - 1 = 0"
  then have "real (2 * n) = real 1" by simp
  then have "2 * n = 1" using of_nat_eq_iff by blast
  then show False by presburger
qed

text \<open>
  Claim C7, as the code has it. \<open>getColWidth\<close> is at most 20 for all arguments,
  \<open>NaN\<close> included. It does not increase with \<open>numCols\<close> from one column on, when
  the width that is divided (the width, less \<open>10 * numChars\<close> when \<open>showYAxis\<close> is
  set) is a finite number that is not negative.
\<close>

theorem getColWidth_bound:
  "getColWidth toString w n mx mn s \<le> Num 20 \<and>
   (w = Num a \<and> 0 \<le> (if s then a - 10 * real (numChars toString mx mn) else a) \<and> 1 \<le> n \<and> n \<le> m \<longrightarrow>
      getColWidth toString w m mx mn s \<le> getColWidth toString w n mx mn s)"
proof (intro conjI impI)
  show "getColWidth toString w n mx mn s \<le> Num 20"
    by (cases w) (simp_all add: getColWidth_def Let_def)
next
  assume h: "w = Num a \<and> 0 \<le> (if s then a - 10 * real (numChars toString mx mn) else a) \<and> 1 \<le> n \<and> n \<le> m"
  define b where "b = (if s then a - 10 * real (numChars toString mx mn) else a)"
  have b0: "0 \<le> b" using h by (simp add: b_def)
  have mono: "b / (2 * real m - 1) \<le> b / (2 * real n - 1)"
    using div_odd_antimono [of b n m] b0 h by simp
  have eq: "\<And>k. getColWidth toString w k mx mn s =
      (if b / (2 * real k - 1) < 20 then Num (b / (2 * real k - 1)) else Num 20)"
    using h odd_nonzero by (simp add: getColWidth_def Let_def b_def)
  show "getColWidth toString w m mx mn s \<le> getColWidth toString w n mx mn s"
    using mono by (simp add: eq)
qed

theorem getColWidth_bound_witness:
  "getColWidth toString_integer (Num 150) 5 (Num 100) (Num 0) True \<le> Num 20 \<and>
   getColWidth toString_integer (Num 150) 5 (Num 100) (Num 0) True
     \<le> getColWidth toString_integer (Num 150) 2 (Num 100) (Num 0) True"
  using getColWidth_bound [of toString_integer "Num 150" 2 "Num 100" "Num 0" True 150 5]
    getColWidth_bound [of toString_integer "Num 150" 5 "Num 100" "Num 0" True 150 5]
  by (simp add: numChars_def toString_integer_def decimal.simps)

text \<open>
  Claim C7 as stated fails at both ends of its range. From no column to one
  column the width of a chart 150 wide rises from -150 to 20. With \<open>showYAxis\<close>
  set and labels of three characters, a chart 20 wide divides -10: the width
  rises from -10 for one column to -10/3 for two.
\<close>

theorem getColWidth_bound_counterexample:
  "getColWidth toString_integer (Num 150) 0 (Num 100) (Num 0) False = Num (- 150) \<and>
   getColWidth toString_integer (Num 150) 1 (Num 100) (Num 0) False = Num 20 \<and>
   \<not> getColWidth toString_integer (Num 150) 1 (Num 100) (Num 0) False
       \<le> getColWidth toString_integer (Num 150) 0 (Num 100) (Num 0) False \<and>
   getColWidth toString_integer (Num 20) 1 (Num 100) (Num 0) True = Num (- 10) \<and>
   getColWidth toString_integer (Num 20) 2 (Num 100) (Num 0) True = Num (- 10 / 3) \<and>
   \<not> getColWidth toString_integer (Num 20) 2 (Num 100) (Num 0) True
       \<le> getColWidth toString_integer (Num 20) 1 (Num 100) (Num 0) True"
  by (simp add: getColWidth_def Let_def numChars_def toString_integer_def decimal.simps)

section \<open>The linking function resolves the configuration\<close>

lemma link_unfold:
  "link ts ps =
    bind (if truthy_json (params.thresholds ps)
          then bind (JSON_parse (params.thresholds ps)) (\<lambda>t. Inr (Some t))
          else Inr None)
      (\<lambda>t. bind (if truthy_json (params.data ps) then JSON_parse (params.data ps) else Inr [])
      (\<lambda>d. Inr (params_render ts (link_chart ts ps t d))))"
  unfolding link_def link_chart_def Let_def truthy_array_def if_True
  by (rule refl)

lemma link_Inr_iff:
  "link ts ps = Inr chart \<longleftrightarrow>
    params.thresholds ps \<noteq> Malformed \<and> params.data ps \<noteq> Malformed \<and>
    chart = params_render ts (link_chart ts ps
      (case params.thresholds ps of Json t \<Rightarrow> Some t | _ \<Rightarrow> None)
      (case params.data ps of Json d \<Rightarrow> d | _ \<Rightarrow> []))"
  unfolding link_unfold
  by (cases "params.thresholds ps"; cases "params.data ps") (auto simp add: bind_def)

lemma link_chart_fields:
  "chart.svg (link_chart ts ps t d) = []"
  "chart.console (link_chart ts ps t d) = []"
  "chart.params (link_chart ts ps t d) = ps"
  "chart.showBaseline (link_chart ts ps t d) = truthy_attr (params.baseline ps)"
  "chart.showXAxis (link_chart ts ps t d) = (params.showXAxis ps = Some ''true'')"
  "chart.showYAxis (link_chart ts ps t d) = (params.showYAxis ps = Some ''true'')"
  by (simp_all add: link_chart_def Let_def split del: if_split)

lemma link_config_fields:
  "config.data (chart.config (link_chart ts ps t d)) = d"
  "config.thresholds (chart.config (link_chart ts ps t d)) = t"
  "config.baseline (chart.config (link_chart ts ps t d)) =
      (if truthy_number (parseFloat (attr_string (params.baseline ps)))
       then Some (parseFloat (attr_string (params.baseline ps))) else None)"
  "config.width (chart.config (link_chart ts ps t d)) =
      (if truthy_attr (params.width ps) then parseInt (attr_string (params.width ps)) else Num 150)"
  "config.height (chart.config (link_chart ts ps t d)) =
      (if truthy_attr (params.height ps) then parseInt (attr_string (params.height ps)) else Num 75)"
  "config.max' (chart.config (link_chart ts ps t d)) =
      (if truthy_attr (params.max' ps) then parseFloat (attr_string (params.max' ps)) else Num 100)"
  "config.min' (chart.config (link_chart ts ps t d)) =
      (if truthy_attr (params.min' ps) then parseFloat (attr_string (params.min' ps)) else Num 0)"
  by (simp_all add: link_chart_def Let_def split del: if_split)

lemma link_config_geometry:
  fixes ts ps t d
  defines "c \<equiv> chart.config (link_chart ts ps t d)"
  shows "colWidth c = getColWidth ts (config.width c) (length (config.data c)) (config.max' c) (config.min' c) False"
    and "marginTop c = Num 0.5 * getFontSize (colWidth c)"
    and "marginBottom c = (if params.showXAxis ps = Some ''true'' then Num 1.3 * getFontSize (colWidth c) else Num 1)"
    and "marginLeft c = (if params.showYAxis ps = Some ''true''
          then getFontSize (colWidth c) * Num (real (numChars ts (config.max' c) (config.min' c))) else Num 0)"
    and "marginRight c = Num 5"
    and "yScale c = linear (config.min' c, config.max' c) (marginTop c, config.height c - marginBottom c)"
    and "xScale c = linear (Num 0, Num (real (length (config.data c)) - 1))
          (marginLeft c, config.width c - colWidth c - marginRight c)"
  unfolding c_def
  by (simp_all add: link_chart_def Let_def getMargins_def split del: if_split cong del: if_weak_cong)

lemma params_render_frame:
  "chart.config (params_render ts c) = chart.config c"
  "chart.params (params_render ts c) = chart.params c"
  "chart.showBaseline (params_render ts c) = chart.showBaseline c"
  "chart.showXAxis (params_render ts c) = chart.showXAxis c"
  "chart.showYAxis (params_render ts c) = chart.showYAxis c"
  "chart.console (params_render ts c) = chart.console c"
  by (simp_all add: params_render_def Let_def)

lemmas parseFloat_simps =
  parseFloat_def signOf_def isWhiteSpace_def isDigit_def digitsValue_def digitValue_def
  exponentPart_def

lemma parseFloat_0: "parseFloat ''0'' = Num 0"
  by (simp add: parseFloat_simps Let_def)

text \<open>
  Claim C1, as the code has it. For every malformed data payload, the
  \<open>SyntaxError\<close> of \<open>JSON.parse\<close> leaves \<open>link\<close>: \<open>link\<close> has no handler for it.
  No configuration results, nothing is rendered and nothing is logged.
\<close>

theorem link_malformed_data:
  "params.data ps = Malformed \<Longrightarrow> link toString ps = Inl SyntaxError"
  unfolding link_unfold by (cases "params.thresholds ps") (simp_all add: bind_def)

theorem link_malformed_data_witness:
  "link toString_integer
     (no_params\<lparr>params.data := Malformed, params.thresholds := Json [(''h'', 7.2), (''hh'', 9)],
        params.showXAxis := Some ''true''\<rparr>) = Inl SyntaxError"
  using link_malformed_data [of "no_params\<lparr>params.data := Malformed,
        params.thresholds := Json [(''h'', 7.2), (''hh'', 9)], params.showXAxis := Some ''true''\<rparr>"
      toString_integer]
  by simp

text \<open>
  Claim C1 as stated fails: with a data payload that does not parse and no other
  attribute, \<open>link\<close> ends in the exception and returns no chart.
\<close>

theorem link_malformed_data_counterexample:
  "link toString_integer (no_params\<lparr>params.data := Malformed\<rparr>) = Inl SyntaxError \<and>
   link toString_integer (no_params\<lparr>params.data := Malformed\<rparr>)
     \<noteq> Inr (params_render toString_integer
              (link_chart toString_integer (no_params\<lparr>params.data := Malformed\<rparr>) None []))"
  by (simp add: link_unfold no_params_def bind_def)

text \<open>
  Claim C10. When the baseline attribute is the string \<open>0\<close>, \<open>link\<close> (if the JSON
  attributes parse) sets \<open>showBaseline\<close>, so that \<open>params.render\<close> draws the columns
  with \<open>renderDataFromBaseline\<close>, and \<open>config.baseline\<close> is \<open>null\<close>.
\<close>

theorem link_baseline_0:
  "params.baseline ps = Some ''0'' \<Longrightarrow> link toString ps = Inr chart \<Longrightarrow>
   chart.showBaseline chart \<and> config.baseline (chart.config chart) = None \<and>
   (\<exists>pre. chart.svg chart =
      renderReference (chart.config chart) (renderBorders (chart.config chart)
        (renderErrorBars (chart.config chart) (renderDataFromBaseline (chart.config chart) pre))))"
proof -
  assume b: "params.baseline ps = Some ''0''" and l: "link toString ps = Inr chart"
  define c0 where "c0 = link_chart toString ps
      (case params.thresholds ps of Json t \<Rightarrow> Some t | _ \<Rightarrow> None)
      (case params.data ps of Json d \<Rightarrow> d | _ \<Rightarrow> [])"
  have chart: "chart = params_render toString c0"
    using l by (simp add: link_Inr_iff c0_def)
  have sb: "chart.showBaseline c0"
    using b by (simp add: c0_def link_chart_fields truthy_str_def)
  have bl: "config.baseline (chart.config c0) = None"
    using b by (simp add: c0_def link_config_fields parseFloat_0)
  have "\<exists>pre. chart.svg (params_render toString c0) =
      renderReference (chart.config c0) (renderBorders (chart.config c0)
        (renderErrorBars (chart.config c0) (renderDataFromBaseline (chart.config c0) pre)))"
    unfolding params_render_def Let_def using sb
    by (simp split del: if_split) (rule exI, rule refl)
  then show ?thesis
    using sb bl by (simp add: chart params_render_frame)
qed

theorem link_baseline_0_witness:
  "\<exists>chart. link toString_integer (no_params\<lparr>params.baseline := Some ''0''\<rparr>) = Inr chart \<and>
     chart.showBaseline chart \<and> config.baseline (chart.config chart) = None"
proof -
  obtain chart where l: "link toString_integer (no_params\<lparr>params.baseline := Some ''0''\<rparr>) = Inr chart"
    by (simp add: link_Inr_iff no_params_def)
  show ?thesis
    using link_baseline_0 [of "no_params\<lparr>params.baseline := Some ''0''\<rparr>" toString_integer chart] l
    by simp
qed

lemma link_colWidth:
  "link toString ps = Inr chart \<Longrightarrow>
   colWidth (chart.config chart) =
     getColWidth toString (config.width (chart.config chart))
       (length (config.data (chart.config chart)))
       (config.max' (chart.config chart)) (config.min' (chart.config chart)) False"
  by (simp add: link_Inr_iff params_render_frame link_config_geometry(1))

text \<open>
  Claim C8 does not hold of the code. With five columns, the default width 150,
  the default domain from 0 to 100 and the attribute \<open>showYAxis\<close> set to \<open>true\<close>,
  \<open>link\<close> sets the local flag \<open>showYAxis\<close> and lays the chart out with the column
  width \<open>150 / 9\<close>, which \<open>getColWidth\<close> gives without the flag. With the flag it
  gives \<open>(150 - 30) / 9\<close>.
\<close>

theorem link_colWidth_showYAxis:
  "(case link toString_integer
      (no_params\<lparr>params.data := Json [column ''a'' 1, column ''b'' 2, column ''c'' 3,
                                       column ''d'' 4, column ''e'' 5],
                 params.showYAxis := Some ''true''\<rparr>) of
      Inl e \<Rightarrow> None
    | Inr chart \<Rightarrow> Some (chart.showYAxis chart, colWidth (chart.config chart)))
     = Some (True, Num (150 / 9)) \<and>
   getColWidth toString_integer (Num 150) 5 (Num 100) (Num 0) False = Num (150 / 9) \<and>
   getColWidth toString_integer (Num 150) 5 (Num 100) (Num 0) True = Num ((150 - 30) / 9)"
proof -
  define ps where "ps = no_params\<lparr>params.data := Json [column ''a'' 1, column ''b'' 2,
      column ''c'' 3, column ''d'' 4, column ''e'' 5], params.showYAxis := Some ''true''\<rparr>"
  obtain chart where l: "link toString_integer ps = Inr chart"
    by (simp add: link_Inr_iff no_params_def ps_def)
  have y: "chart.showYAxis chart"
    using l by (simp add: link_Inr_iff params_render_frame link_chart_fields ps_def no_params_def)
  have f: "config.width (chart.config chart) = Num 150"
      "config.max' (chart.config chart) = Num 100" "config.min' (chart.config chart) = Num 0"
      "length (config.data (chart.config chart)) = 5"
    using l by (simp_all add: link_Inr_iff params_render_frame link_config_fields ps_def no_params_def)
  have g: "getColWidth toString_integer (Num 150) 5 (Num 100) (Num 0) False = Num (150 / 9)"
      "getColWidth toString_integer (Num 150) 5 (Num 100) (Num 0) True = Num ((150 - 30) / 9)"
    by (simp_all add: getColWidth_def Let_def numChars_def toString_integer_def decimal.simps)
  have "colWidth (chart.config chart) = Num (150 / 9)"
    using link_colWidth [OF l] by (simp only: f g)
  then show ?thesis
    using l y g unfolding ps_def by simp
qed

section \<open>Selections and the elements of the renderers\<close>

lemma nths_filter:
  "map ((!) xs) (filter (\<lambda>j. P (xs ! j)) [0..<length xs]) = filter P xs"
proof (induction xs rule: rev_induct)
  case Nil
  then show ?case by simp
next
  case (snoc x xs)
  have "map ((!) (xs @ [x])) (filter (\<lambda>j. P ((xs @ [x]) ! j)) [0..<length xs])
      = map ((!) xs) (filter (\<lambda>j. P (xs ! j)) [0..<length xs])"
    by (intro map_cong filter_cong) (auto simp add: nth_append)
  then show ?case using snoc by simp
qed

lemma nodes_selectAll: "map ((!) es) (selectAll sel es) = filter (matches sel) es"
  by (simp add: selectAll_def nths_filter)

lemma length_selectAll: "length (selectAll sel es) = length (filter (matches sel) es)"
  using nodes_selectAll [of es sel] by (metis length_map)

lemma set_selectAll: "set (selectAll sel es) = {j. j < length es \<and> matches sel (es ! j)}"
  by (auto simp add: selectAll_def)

lemma distinct_selectAll: "distinct (selectAll sel es)"
  by (simp add: selectAll_def)

lemma nth_selectAll:
  "i < length (selectAll sel es) \<Longrightarrow> es ! (selectAll sel es ! i) = filter (matches sel) es ! i"
  using nodes_selectAll [of es sel] by (metis nth_map)

lemma enter_none:
  "filter (matches sel) es = [] \<Longrightarrow> enter sel xs es = enumerate 0 xs"
  by (simp add: enter_def length_selectAll)

lemma attr_fn_result:
  assumes "\<forall>i<length js. f (i0 + i) = Inr (g (i0 + i))" "distinct js" "\<forall>j\<in>set js. j < length es"
  shows "\<exists>es2. attr_fn k f i0 js es = Inr es2 \<and> length es2 = length es \<and>
           (\<forall>j<length es. j \<notin> set js \<longrightarrow> es2 ! j = es ! j) \<and>
           (\<forall>i<length js. es2 ! (js ! i) = attr k (Some (g (i0 + i))) (es ! (js ! i)))"
  using assms
proof (induction js arbitrary: i0 es)
  case Nil
  then show ?case by simp
next
  case (Cons j js)
  let ?es1 = "es[j := attr k (Some (g i0)) (es ! j)]"
  have f0: "f i0 = Inr (g i0)" using Cons.prems(1) by force
  have 1: "\<forall>i<length js. f (Suc i0 + i) = Inr (g (Suc i0 + i))"
    using Cons.prems(1) by force
  have 2: "distinct js" "j \<notin> set js" using Cons.prems(2) by auto
  have 3: "\<forall>j\<in>set js. j < length ?es1" "j < length es" using Cons.prems(3) by auto
  obtain es2 where r: "attr_fn k f (Suc i0) js ?es1 = Inr es2" "length es2 = length ?es1"
      "\<forall>j<length ?es1. j \<notin> set js \<longrightarrow> es2 ! j = ?es1 ! j"
      "\<forall>i<length js. es2 ! (js ! i) = attr k (Some (g (Suc i0 + i))) (?es1 ! (js ! i))"
    using Cons.IH [OF 1 2(1) 3(1)] by blast
  have a: "attr_fn k f i0 (j # js) es = Inr es2" using f0 r(1) by simp
  have b: "\<forall>j'<length es. j' \<notin> set (j # js) \<longrightarrow> es2 ! j' = es ! j'"
    using r(3) by simp
  have c: "\<forall>i<length (j # js). es2 ! ((j # js) ! i) = attr k (Some (g (i0 + i))) (es ! ((j # js) ! i))"
  proof (intro allI impI)
    fix i assume i: "i < length (j # js)"
    show "es2 ! ((j # js) ! i) = attr k (Some (g (i0 + i))) (es ! ((j # js) ! i))"
    proof (cases i)
      case 0
      then show ?thesis using r(3) 2(2) 3(2) by simp
    next
      case (Suc i')
      then have "i' < length js" using i by simp
      moreover then have "js ! i' \<noteq> j" using 2(2) nth_mem by metis
      ultimately show ?thesis using r(4) Suc by simp
    qed
  qed
  show ?case using a b c r(2) by simp
qed

lemma attr_fn_fails:
  assumes "i < length js" "f (i0 + i) = Inl e" "\<forall>i'<i. \<exists>v. f (i0 + i') = Inr v"
  shows "attr_fn k f i0 js es = Inl e"
  using assms
proof (induction js arbitrary: i i0 es)
  case Nil
  then show ?case by simp
next
  case (Cons j js)
  show ?case
  proof (cases i)
    case 0
    then show ?thesis using Cons.prems(2) by simp
  next
    case (Suc i')
    then obtain v where v: "f i0 = Inr v" using Cons.prems(3) by force
    have "attr_fn k f (Suc i0) js (es[j := attr k (Some v) (es ! j)]) = Inl e"
      using Cons.IH [of i' "Suc i0"] Cons.prems Suc by force
    then show ?thesis using v by simp
  qed
qed

lemma attr_same: "map_of (attrs e) k = Some v \<Longrightarrow> attr k (Some v) e = e"
  by (simp add: attr_def update_triv)

lemma attr_fn_noop:
  assumes "\<forall>i<length js. js ! i < length es \<and> f (i0 + i) = Inr (g (i0 + i)) \<and>
              map_of (attrs (es ! (js ! i))) k = Some (g (i0 + i))"
  shows "attr_fn k f i0 js es = Inr es"
  using assms
proof (induction js arbitrary: i0)
  case Nil
  then show ?case by simp
next
  case (Cons j js)
  have 0: "f i0 = Inr (g i0)" "map_of (attrs (es ! j)) k = Some (g i0)"
    using Cons.prems by force+
  have "\<forall>i<length js. js ! i < length es \<and> f (Suc i0 + i) = Inr (g (Suc i0 + i)) \<and>
              map_of (attrs (es ! (js ! i))) k = Some (g (Suc i0 + i))"
    using Cons.prems by force
  then have "attr_fn k f (Suc i0) js es = Inr es" by (rule Cons.IH)
  then show ?case using 0 by (simp add: attr_same)
qed

lemma tag_append_fold: "tag (foldl (\<lambda>e (k, v). attr k v e) e chain) = tag e"
  by (induction chain arbitrary: e) (auto simp add: attr_def split: option.splits)

lemma tag_append [simp]: "tag (append t chain) = t"
  by (simp add: append_def tag_append_fold)

lemma axis_rect_attrs:
  "attrs (axis_rect c i d) =
    [(''shape-rendering'', S ''crispEdges''),
     (''class'', S ''data''),
     (''width'', N (colWidth c)),
     (''height'', N (scale_y c (Num (value' d)) - marginTop c)),
     (''y'', N (config.height c - marginBottom c + marginTop c - scale_y c (Num (value' d)))),
     (''fill'', S (fill_of d c)),
     (''x'', N (scale_x c i))]"
  by (simp add: axis_rect_def append_def attr_def)

lemma baseline_rect_attrs:
  "attrs (baseline_rect c i d) =
    [(''class'', S ''data''),
     (''shape-rendering'', S ''crispEdges''),
     (''x'', N (scale_x c i)),
     (''y'', N (if Num (value' d) \<ge> nullToNumber (config.baseline c)
                then config.height c - marginBottom c + marginTop c
                       - scale_y c (nullToNumber (config.baseline c))
                     - \<bar>scale_y c (nullToNumber (config.baseline c)) - scale_y c (Num (value' d))\<bar>
                else config.height c - marginBottom c + marginTop c
                       - scale_y c (nullToNumber (config.baseline c)))),
     (''height'', N (if truthy_number (Num (value' d))
                     then \<bar>scale_y c (nullToNumber (config.baseline c)) - scale_y c (Num (value' d))\<bar>
                     else Num 0)),
     (''width'', N (colWidth c)),
     (''fill'', S (fill_of d c))]"
  by (simp add: baseline_rect_def append_def attr_def Let_def)

lemma reference_line_attrs:
  "attrs (reference_line c i d) =
    [(''class'', S ''reference''),
     (''x1'', N (scale_x c i - Num 1)),
     (''x2'', N (scale_x c i + colWidth c + Num 1)),
     (''y1'', N (config.height c - marginBottom c + marginTop c
                  - scale_y c (reference_or_0 (reference d)))),
     (''y2'', N (config.height c - marginBottom c + marginTop c
                  - scale_y c (reference_or_0 (reference d)))),
     (''stroke-width'', N (if truthy_reference (reference d) then config.stroke c else Num 0)),
     (''stroke'', S colors_reference),
     (''shape-rendering'', S ''crispEdges'')]"
  by (simp add: reference_line_def append_def attr_def)

lemma rect_tags [simp]:
  "tag (axis_rect c i d) = ''rect''" "tag (baseline_rect c i d) = ''rect''"
  "tag (reference_line c i d) = ''line''"
  by (simp_all add: axis_rect_def baseline_rect_def reference_line_def Let_def)

lemma rect_classes [simp]:
  "classList (axis_rect c i d) = [''data'']" "classList (baseline_rect c i d) = [''data'']"
  "classList (reference_line c i d) = [''reference'']"
  by (simp_all add: classList_def axis_rect_attrs baseline_rect_attrs reference_line_attrs)

lemma matches_simps:
  "matches ''.data'' e = (''data'' \<in> set (classList e))"
  "matches ''.reference'' e = (''reference'' \<in> set (classList e))"
  "matches ''rect.data'' e = (tag e = ''rect'' \<and> ''data'' \<in> set (classList e))"
  "matches ''line.data'' e = (tag e = ''line'' \<and> ''data'' \<in> set (classList e))"
  by (simp_all add: matches_def)

lemma tokens_no_space:
  "CHR '' '' \<notin> set s \<Longrightarrow> tokens acc s = (if acc @ s = [] then [] else [acc @ s])"
  by (induction s arbitrary: acc) auto

lemma decimal_digits: "set (decimal n) \<subseteq> set ''0123456789''"
proof (induction n rule: decimal.induct)
  case (1 n)
  have d: "\<And>k. k < 10 \<Longrightarrow> ''0123456789'' ! k \<in> set ''0123456789''"
    by (rule nth_mem) simp
  show ?case
  proof (cases "n < 10")
    case True
    then show ?thesis using d [of n] by (subst decimal.simps) simp
  next
    case False
    have "''0123456789'' ! (n mod 10) \<in> set ''0123456789''" by (rule d) simp
    then show ?thesis using False 1 by (subst decimal.simps) simp
  qed
qed

lemma decimal_no_space: "CHR '' '' \<notin> set (decimal n)"
  using decimal_digits [of n] by auto

lemma adds_chrome_map:
  "(\<And>x. chrome (f x)) \<Longrightarrow> adds_chrome (\<lambda>es. es @ map f (g es))"
  by (auto simp add: adds_chrome_def)

lemma adds_chrome_comp:
  assumes "adds_chrome R" "adds_chrome Q"
  shows "adds_chrome (\<lambda>es. Q (R es))"
  unfolding adds_chrome_def
proof
  fix es
  obtain n1 where 1: "R es = es @ n1" "\<forall>e\<in>set n1. chrome e"
    using assms(1) unfolding adds_chrome_def by blast
  obtain n2 where 2: "Q (R es) = R es @ n2" "\<forall>e\<in>set n2. chrome e"
    using assms(2) unfolding adds_chrome_def by blast
  have "Q (R es) = es @ (n1 @ n2)" "\<forall>e\<in>set (n1 @ n2). chrome e"
    using 1 2 by auto
  then show "\<exists>new. Q (R es) = es @ new \<and> (\<forall>e\<in>set new. chrome e)" by blast
qed

lemma adds_chrome_id: "adds_chrome (\<lambda>es. es)"
  by (simp add: adds_chrome_def)

lemma chrome_not_matches:
  "chrome e \<Longrightarrow> \<not> matches ''.data'' e \<and> \<not> matches ''.reference'' e \<and>
     \<not> matches ''rect.data'' e \<and> \<not> matches ''line.data'' e"
  by (simp add: chrome_def matches_simps)

lemma adds_chrome_filter:
  assumes "adds_chrome R" "sel \<in> {''.data'', ''.reference'', ''rect.data'', ''line.data''}"
  shows "filter (matches sel) (R es) = filter (matches sel) es"
proof -
  obtain new where n: "R es = es @ new" "\<forall>e\<in>set new. chrome e"
    using assms(1) unfolding adds_chrome_def by blast
  have "filter (matches sel) new = []"
    using n(2) assms(2) chrome_not_matches by (auto simp add: filter_empty_conv)
  then show ?thesis using n(1) by simp
qed

lemma backgrounds_chrome: "adds_chrome (renderBackgrounds c)"
  unfolding renderBackgrounds_def
  by (rule adds_chrome_map) (simp add: chrome_def classList_def append_def attr_def split: prod.splits)

lemma thresholds_chrome: "adds_chrome (renderThresholdMarkers c)"
  unfolding renderThresholdMarkers_def
  by (rule adds_chrome_map)
    (simp add: chrome_def classList_def append_def attr_def Let_def update_conv' delete_conv'
      split: prod.splits option.splits)

lemma xaxis_chrome: "adds_chrome (renderXAxis ts c)"
  unfolding renderXAxis_def
  by (rule adds_chrome_map) (simp add: chrome_def classList_def append_def attr_def split: prod.splits)

lemma yaxis_chrome: "adds_chrome (renderYAxis ts c)"
  by (simp add: adds_chrome_def renderYAxis_def chrome_def classList_def append_def attr_def)

lemma borders_chrome: "adds_chrome (renderBorders c)"
  by (simp add: adds_chrome_def renderBorders_def chrome_def classList_def append_def attr_def)

lemma class_kept:
  "''class'' \<notin> fst ` set chain \<Longrightarrow>
   map_of (attrs (foldl (\<lambda>e (k, v). attr k v e) e chain)) ''class'' = map_of (attrs e) ''class''"
proof (induction chain arbitrary: e)
  case Nil
  then show ?case by simp
next
  case (Cons kv chain)
  obtain k v where kv: "kv = (k, v)" by (cases kv)
  have k: "k \<noteq> ''class''" using Cons.prems kv by auto
  have "map_of (attrs (attr k v e)) ''class'' = map_of (attrs e) ''class''"
    using k by (cases v) (simp_all add: attr_def update_conv' delete_conv')
  then show ?case using Cons kv by simp
qed

lemma classList_append:
  "''class'' \<notin> fst ` set chain \<Longrightarrow>
   classList (append t ((''class'', str s) # chain)) = tokens [] s"
  by (simp add: classList_def append_def class_kept) (simp add: attr_def)

lemma errorBars_chrome: "adds_chrome (renderErrorBars c)"
  unfolding adds_chrome_def renderErrorBars_def Let_def
  by (auto simp add: chrome_def classList_append tokens_no_space decimal_no_space)

lemma filter_map_all: "(\<And>x. P (f x)) \<Longrightarrow> filter P (map f xs) = map f xs"
  by (induction xs) auto

lemma filter_map_none: "(\<And>x. \<not> P (f x)) \<Longrightarrow> filter P (map f xs) = []"
  by (induction xs) auto

lemma renderDataFromAxis_nodes:
  assumes "filter (matches ''rect.data'') es = []"
  shows "filter (matches ''.data'') (renderDataFromAxis c es)
           = filter (matches ''.data'') es @ map (\<lambda>(i, d). axis_rect c i d) (enumerate 0 (config.data c))"
    and "filter (matches ''.reference'') (renderDataFromAxis c es) = filter (matches ''.reference'') es"
    and "filter (matches ''line.data'') (renderDataFromAxis c es) = filter (matches ''line.data'') es"
  unfolding renderDataFromAxis_def enter_none [OF assms]
  by (simp_all add: filter_map_all filter_map_none matches_simps split: prod.splits)

lemma baseline_marker_chrome:
  "chrome (append ''line''
          [(''x1'', a), (''x2'', b), (''y1'', y), (''y2'', y'), (''stroke-width'', w),
           (''stroke'', s), (''shape-rendering'', r)])"
  by (cases a; cases b; cases y; cases y'; cases w; cases s; cases r)
     (simp_all add: chrome_def classList_def append_def attr_def)

lemma renderDataFromBaseline_nodes:
  assumes "filter (matches ''rect.data'') es = []"
  shows "filter (matches ''.data'') (renderDataFromBaseline c es)
           = filter (matches ''.data'') es @ map (\<lambda>(i, d). baseline_rect c i d) (enumerate 0 (config.data c))"
    and "filter (matches ''.reference'') (renderDataFromBaseline c es) = filter (matches ''.reference'') es"
    and "filter (matches ''line.data'') (renderDataFromBaseline c es) = filter (matches ''line.data'') es"
  unfolding renderDataFromBaseline_def Let_def enter_none [OF assms]
  using chrome_not_matches [OF baseline_marker_chrome]
  by (simp_all add: filter_map_all filter_map_none matches_simps split: prod.splits)

lemma renderReference_nodes:
  assumes "filter (matches ''line.data'') es = []"
  shows "filter (matches ''.data'') (renderReference c es) = filter (matches ''.data'') es"
    and "filter (matches ''.reference'') (renderReference c es)
           = filter (matches ''.reference'') es @ map (\<lambda>(i, d). reference_line c i d) (enumerate 0 (config.data c))"
  unfolding renderReference_def enter_none [OF assms]
  by (simp_all add: filter_map_all filter_map_none matches_simps split: prod.splits)

lemma params_render_nodes:
  assumes "chart.svg c0 = []"
  shows "filter (matches ''.data'') (chart.svg (params_render ts c0))
           = map (\<lambda>(i, d). column_rect c0 i d) (enumerate 0 (config.data (chart.config c0)))"
    and "filter (matches ''.reference'') (chart.svg (params_render ts c0))
           = map (\<lambda>(i, d). reference_line (chart.config c0) i d)
               (enumerate 0 (config.data (chart.config c0)))"
proof -
  let ?c = "chart.config c0"
  define PRE where "PRE = (\<lambda>es. (if chart.showYAxis c0 then renderYAxis ts ?c else (\<lambda>es. es))
      ((if chart.showXAxis c0 then renderXAxis ts ?c else (\<lambda>es. es))
      ((if truthy_json (params.thresholds (chart.params c0)) then renderThresholdMarkers ?c else (\<lambda>es. es))
      (renderBackgrounds ?c es))))"
  define D where "D = (if chart.showBaseline c0 then renderDataFromBaseline ?c (PRE [])
      else renderDataFromAxis ?c (PRE []))"
  define E where "E = renderBorders ?c (renderErrorBars ?c D)"
  have svg: "chart.svg (params_render ts c0) = renderReference ?c E"
    by (simp add: params_render_def Let_def E_def D_def PRE_def assms)
  have i: "adds_chrome (if b then R else (\<lambda>es. es))" if "adds_chrome R" for b R
    using that by (cases b) (simp_all add: adds_chrome_id)
  have 1: "adds_chrome (\<lambda>es. (if truthy_json (params.thresholds (chart.params c0))
      then renderThresholdMarkers ?c else (\<lambda>es. es)) (renderBackgrounds ?c es))"
    by (rule adds_chrome_comp [OF backgrounds_chrome i [OF thresholds_chrome]])
  have 2: "adds_chrome (\<lambda>es. (if chart.showXAxis c0 then renderXAxis ts ?c else (\<lambda>es. es))
      ((if truthy_json (params.thresholds (chart.params c0))
      then renderThresholdMarkers ?c else (\<lambda>es. es)) (renderBackgrounds ?c es)))"
    by (rule adds_chrome_comp [OF 1 i [OF xaxis_chrome]])
  have "adds_chrome PRE"
    unfolding PRE_def by (rule adds_chrome_comp [OF 2 i [OF yaxis_chrome]])
  then have pre: "filter (matches sel) (PRE []) = []"
    if "sel \<in> {''.data'', ''.reference'', ''rect.data'', ''line.data''}" for sel
    using adds_chrome_filter [of PRE sel "[]"] that by simp
  have D: "filter (matches ''.data'') D = map (\<lambda>(i, d). column_rect c0 i d) (enumerate 0 (config.data ?c))"
      "filter (matches ''.reference'') D = []" "filter (matches ''line.data'') D = []"
    unfolding D_def column_rect_def
    using renderDataFromAxis_nodes [of "PRE []" ?c] renderDataFromBaseline_nodes [of "PRE []" ?c] pre
    by simp_all
  have "adds_chrome (\<lambda>es. renderBorders ?c (renderErrorBars ?c es))"
    by (rule adds_chrome_comp [OF errorBars_chrome borders_chrome])
  then have E: "filter (matches sel) E = filter (matches sel) D"
    if "sel \<in> {''.data'', ''.reference'', ''rect.data'', ''line.data''}" for sel
    unfolding E_def using adds_chrome_filter that by blast
  have l: "filter (matches ''line.data'') E = []" using E D by simp
  show "filter (matches ''.data'') (chart.svg (params_render ts c0))
           = map (\<lambda>(i, d). column_rect c0 i d) (enumerate 0 (config.data ?c))"
    unfolding svg using renderReference_nodes(1) [OF l] E D by simp
  show "filter (matches ''.reference'') (chart.svg (params_render ts c0))
           = map (\<lambda>(i, d). reference_line ?c i d) (enumerate 0 (config.data ?c))"
    unfolding svg using renderReference_nodes(2) [OF l] E D by simp
qed

section \<open>The columns that link renders\<close>

lemma link_nodes:
  assumes "link ts ps = Inr chart"
  shows "filter (matches ''.data'') (chart.svg chart)
           = map (\<lambda>(i, d). column_rect chart i d) (enumerate 0 (config.data (chart.config chart)))"
    and "filter (matches ''.reference'') (chart.svg chart)
           = map (\<lambda>(i, d). reference_line (chart.config chart) i d)
               (enumerate 0 (config.data (chart.config chart)))"
proof -
  obtain c0 where c0: "chart = params_render ts c0" "chart.svg c0 = []"
    using assms by (auto simp add: link_Inr_iff link_chart_fields)
  have cr: "column_rect (params_render ts c0) = column_rect c0"
    by (intro ext) (simp add: column_rect_def params_render_frame)
  show "filter (matches ''.data'') (chart.svg chart)
           = map (\<lambda>(i, d). column_rect chart i d) (enumerate 0 (config.data (chart.config chart)))"
    unfolding c0(1) cr params_render_frame by (rule params_render_nodes(1) [OF c0(2)])
  show "filter (matches ''.reference'') (chart.svg chart)
           = map (\<lambda>(i, d). reference_line (chart.config chart) i d)
               (enumerate 0 (config.data (chart.config chart)))"
    unfolding c0(1) params_render_frame by (rule params_render_nodes(2) [OF c0(2)])
qed

lemma parseInt_finite: "parseInt s \<noteq> PosInf \<and> parseInt s \<noteq> NegInf"
  by (simp add: parseInt_def Let_def split: prod.splits)

lemma getColWidth_Num:
  assumes "w \<noteq> PosInf \<and> w \<noteq> NegInf"
  shows "\<exists>a. getColWidth ts w n mx mn s = Num a"
proof -
  have "2 * real n \<noteq> 1"
    using odd_nonzero [of n] by simp
  then show ?thesis
    using assms by (cases w) (auto simp add: getColWidth_def Let_def)
qed

lemma getFontSize_Num: "getFontSize (Num a) = Num (if a * 0.6 < 9 then 9 else a * 0.6)"
  by (simp add: getFontSize_def Let_def)

lemma link_yScale:
  assumes "link ts ps = Inr chart"
  shows "\<exists>mt mb. marginTop (chart.config chart) = Num mt \<and> marginBottom (chart.config chart) = Num mb \<and>
     yScale (chart.config chart) =
       linear (config.min' (chart.config chart), config.max' (chart.config chart))
         (Num mt, config.height (chart.config chart) - Num mb)"
proof -
  obtain t d where c: "chart.config chart = chart.config (link_chart ts ps t d)"
    using assms by (auto simp add: link_Inr_iff params_render_frame)
  have "config.width (chart.config chart) \<noteq> PosInf \<and> config.width (chart.config chart) \<noteq> NegInf"
    unfolding c link_config_fields using parseInt_finite by simp
  then obtain a where a: "colWidth (chart.config chart) = Num a"
    unfolding c link_config_geometry(1) using getColWidth_Num by blast
  obtain f where f: "getFontSize (Num a) = Num f"
    by (simp add: getFontSize_Num)
  have mt: "marginTop (chart.config chart) = Num (0.5 * f)"
    unfolding c link_config_geometry(2) using a f c by simp
  have mb: "marginBottom (chart.config chart)
      = Num (if params.showXAxis ps = Some ''true'' then 1.3 * f else 1)"
    unfolding c link_config_geometry(3) using a f c by simp
  have ys: "yScale (chart.config chart) =
       linear (config.min' (chart.config chart), config.max' (chart.config chart))
         (marginTop (chart.config chart), config.height (chart.config chart) - marginBottom (chart.config chart))"
    unfolding c by (rule link_config_geometry(6))
  show ?thesis
    by (intro exI [of _ "0.5 * f"] exI [of _ "if params.showXAxis ps = Some ''true'' then 1.3 * f else 1"]
          conjI mt mb)
       (simp only: ys mt mb)
qed

lemma apply_linear:
  "mn \<noteq> mx \<Longrightarrow> apply_scale (linear (Num mn, Num mx) (Num r0, Num r1)) (Num v)
     = Num (r0 + (v - mn) / (mx - mn) * (r1 - r0))"
  by (simp add: apply_scale_def linear_def Let_def)

text \<open>
  Claim C6. In zero-origin mode (\<open>showBaseline\<close> not set) \<open>link\<close> renders one
  rectangle of class \<open>data\<close> for each column, and the height in which the
  rectangle of the column \<open>i\<close> ends is \<open>yScale(value) - marginTop\<close>. When the
  height of the chart and the bounds \<open>min \<noteq> max\<close> are finite numbers, that is
  \<open>(value - min) / (max - min)\<close> of the plot height
  \<open>height - marginBottom - marginTop\<close>, the rectangle ends at the row
  \<open>height - marginBottom\<close> of the bottom margin less that height, and a column
  with \<open>value = min\<close> has the height 0.
\<close>

theorem axis_rect_height:
  assumes "link ts ps = Inr chart" "\<not> chart.showBaseline chart"
    and "i < length (config.data (chart.config chart))"
  shows "length (filter (matches ''.data'') (chart.svg chart)) = length (config.data (chart.config chart)) \<and>
    map_of (attrs (filter (matches ''.data'') (chart.svg chart) ! i)) ''height''
      = Some (N (scale_y (chart.config chart) (Num (value' (config.data (chart.config chart) ! i)))
                 - marginTop (chart.config chart))) \<and>
    (\<forall>H mn mx. config.height (chart.config chart) = Num H \<and> config.min' (chart.config chart) = Num mn \<and>
       config.max' (chart.config chart) = Num mx \<and> mn \<noteq> mx \<longrightarrow>
       (\<exists>mt mb. marginTop (chart.config chart) = Num mt \<and> marginBottom (chart.config chart) = Num mb \<and>
          map_of (attrs (filter (matches ''.data'') (chart.svg chart) ! i)) ''height''
            = Some (N (Num ((value' (config.data (chart.config chart) ! i) - mn) / (mx - mn) * (H - mb - mt)))) \<and>
          map_of (attrs (filter (matches ''.data'') (chart.svg chart) ! i)) ''y''
            = Some (N (Num (H - mb - (value' (config.data (chart.config chart) ! i) - mn) / (mx - mn) * (H - mb - mt)))) \<and>
          (value' (config.data (chart.config chart) ! i) = mn \<longrightarrow>
             map_of (attrs (filter (matches ''.data'') (chart.svg chart) ! i)) ''height'' = Some (N (Num 0)))))"
proof -
  let ?c = "chart.config chart"
  let ?d = "config.data ?c ! i"
  let ?bars = "filter (matches ''.data'') (chart.svg chart)"
  have bars: "?bars = map (\<lambda>(i, d). column_rect chart i d) (enumerate 0 (config.data ?c))"
    by (rule link_nodes(1) [OF assms(1)])
  have bar: "?bars ! i = axis_rect ?c i ?d"
    unfolding bars using assms(2,3) by (simp add: nth_enumerate_eq column_rect_def)
  have len: "length ?bars = length (config.data ?c)"
    unfolding bars by simp
  have h: "map_of (attrs (?bars ! i)) ''height'' = Some (N (scale_y ?c (Num (value' ?d)) - marginTop ?c))"
    and y: "map_of (attrs (?bars ! i)) ''y''
       = Some (N (config.height ?c - marginBottom ?c + marginTop ?c - scale_y ?c (Num (value' ?d))))"
    unfolding bar by (simp_all add: axis_rect_attrs)
  obtain mt mb where m: "marginTop ?c = Num mt" "marginBottom ?c = Num mb"
    "yScale ?c = linear (config.min' ?c, config.max' ?c) (Num mt, config.height ?c - Num mb)"
    using link_yScale [OF assms(1)] by blast
  have "\<exists>mt mb. marginTop ?c = Num mt \<and> marginBottom ?c = Num mb \<and>
          map_of (attrs (?bars ! i)) ''height'' = Some (N (Num ((value' ?d - mn) / (mx - mn) * (H - mb - mt)))) \<and>
          map_of (attrs (?bars ! i)) ''y'' = Some (N (Num (H - mb - (value' ?d - mn) / (mx - mn) * (H - mb - mt)))) \<and>
          (value' ?d = mn \<longrightarrow> map_of (attrs (?bars ! i)) ''height'' = Some (N (Num 0)))"
    if n: "config.height ?c = Num H \<and> config.min' ?c = Num mn \<and> config.max' ?c = Num mx \<and> mn \<noteq> mx"
    for H mn mx
  proof -
    have s: "scale_y ?c (Num (value' ?d)) = Num (mt + (value' ?d - mn) / (mx - mn) * (H - mb - mt))"
      unfolding scale_y_def m(3) using n by (simp add: apply_linear)
    show ?thesis
      using h y s m(1,2) n by (auto simp add: algebra_simps)
  qed
  then show ?thesis using len h by blast
qed

theorem axis_rect_height_witness:
  "\<exists>chart. link toString_integer
       (no_params\<lparr>params.data := Json [column ''Jan'' 7, column ''Feb'' 7.5],
                  params.max' := Some ''10''\<rparr>) = Inr chart \<and>
     \<not> chart.showBaseline chart \<and>
     config.height (chart.config chart) = Num 75 \<and> config.min' (chart.config chart) = Num 0 \<and>
     config.max' (chart.config chart) = Num 10 \<and>
     marginTop (chart.config chart) = Num 6 \<and> marginBottom (chart.config chart) = Num 1 \<and>
     length (filter (matches ''.data'') (chart.svg chart)) = 2 \<and>
     map_of (attrs (filter (matches ''.data'') (chart.svg chart) ! 0)) ''height''
       = Some (N (Num (7 / 10 * (75 - 1 - 6)))) \<and>
     map_of (attrs (filter (matches ''.data'') (chart.svg chart) ! 1)) ''height''
       = Some (N (Num (7.5 / 10 * (75 - 1 - 6))))"
proof -
  define ps where "ps = no_params\<lparr>params.data := Json [column ''Jan'' 7, column ''Feb'' 7.5],
      params.max' := Some ''10''\<rparr>"
  obtain chart where l: "link toString_integer ps = Inr chart"
    by (simp add: link_Inr_iff no_params_def ps_def)
  let ?c = "chart.config chart"
  have c: "?c = chart.config (link_chart toString_integer ps None [column ''Jan'' 7, column ''Feb'' 7.5])"
    using l by (simp add: link_Inr_iff params_render_frame ps_def no_params_def)
  have sb: "\<not> chart.showBaseline chart"
    using l by (simp add: link_Inr_iff params_render_frame link_chart_fields ps_def no_params_def)
  have f: "config.height ?c = Num 75" "config.min' ?c = Num 0" "config.max' ?c = Num 10"
      "config.width ?c = Num 150"
      "config.data ?c = [column ''Jan'' 7, column ''Feb'' 7.5]"
    unfolding c
    by (simp_all add: link_config_fields ps_def no_params_def truthy_str_def parseFloat_simps Let_def)
  have w: "colWidth ?c = Num 20"
    using link_colWidth [OF l] by (simp add: f getColWidth_def Let_def)
  have m: "marginTop ?c = Num 6" "marginBottom ?c = Num 1"
    using w unfolding c link_config_geometry(2,3)
    by (simp_all add: getFontSize_def Let_def ps_def no_params_def)
  have v: "value' (config.data ?c ! 0) = 7" "value' (config.data ?c ! 1) = 7.5"
    by (simp_all add: f column_def)
  have n: "config.height ?c = Num 75 \<and> config.min' ?c = Num 0 \<and> config.max' ?c = Num 10 \<and> (0::real) \<noteq> 10"
    using f by simp
  have i: "0 < length (config.data ?c)" "1 < length (config.data ?c)"
    by (simp_all add: f)
  have len: "length (filter (matches ''.data'') (chart.svg chart)) = 2"
    using axis_rect_height [OF l sb i(1)] by (simp add: f)
  obtain mt mb where h0: "marginTop ?c = Num mt" "marginBottom ?c = Num mb"
      "map_of (attrs (filter (matches ''.data'') (chart.svg chart) ! 0)) ''height''
        = Some (N (Num ((value' (config.data ?c ! 0) - 0) / (10 - 0) * (75 - mb - mt))))"
    using axis_rect_height [OF l sb i(1)] n by blast
  obtain mt' mb' where h1: "marginTop ?c = Num mt'" "marginBottom ?c = Num mb'"
      "map_of (attrs (filter (matches ''.data'') (chart.svg chart) ! 1)) ''height''
        = Some (N (Num ((value' (config.data ?c ! 1) - 0) / (10 - 0) * (75 - mb' - mt'))))"
    using axis_rect_height [OF l sb i(2)] n by blast
  have mm: "mt = 6" "mb = 1" "mt' = 6" "mb' = 1"
    using h0(1,2) h1(1,2) m by simp_all
  have "map_of (attrs (filter (matches ''.data'') (chart.svg chart) ! 0)) ''height''
       = Some (N (Num (7 / 10 * (75 - 1 - 6))))"
    unfolding h0(3) v mm by simp
  moreover have "map_of (attrs (filter (matches ''.data'') (chart.svg chart) ! 1)) ''height''
       = Some (N (Num (7.5 / 10 * (75 - 1 - 6))))"
    unfolding h1(3) v mm by simp
  ultimately show ?thesis
    using l sb f(1-3) m len unfolding ps_def by (intro exI [of _ chart]) simp
qed

section \<open>The update methods\<close>

lemma attr_other:
  "k' \<noteq> k \<Longrightarrow> map_of (attrs (attr k v e)) k' = map_of (attrs e) k'"
  by (cases v) (simp_all add: attr_def update_conv' delete_conv')

lemma attr_this: "map_of (attrs (attr k (Some v) e)) k = Some v"
  by (simp add: attr_def update_conv')

lemma attr_fn_Inr_D:
  assumes "attr_fn k f i0 js es = Inr es2" "distinct js" "\<forall>j\<in>set js. j < length es"
  shows "length es2 = length es \<and>
           (\<forall>j<length es. j \<notin> set js \<longrightarrow> es2 ! j = es ! j) \<and>
           (\<forall>i<length js. \<exists>v. f (i0 + i) = Inr v \<and> es2 ! (js ! i) = attr k (Some v) (es ! (js ! i)))"
  using assms
proof (induction js arbitrary: i0 es)
  case Nil
  then show ?case by simp
next
  case (Cons j js)
  obtain v where v: "f i0 = Inr v"
    using Cons.prems(1) by (cases "f i0") simp_all
  let ?es1 = "es[j := attr k (Some v) (es ! j)]"
  have 1: "attr_fn k f (Suc i0) js ?es1 = Inr es2" using Cons.prems(1) v by simp
  have 2: "distinct js" "j \<notin> set js" using Cons.prems(2) by auto
  have 3: "\<forall>j\<in>set js. j < length ?es1" "j < length es" using Cons.prems(3) by auto
  have r: "length es2 = length ?es1"
      "\<forall>j<length ?es1. j \<notin> set js \<longrightarrow> es2 ! j = ?es1 ! j"
      "\<forall>i<length js. \<exists>v. f (Suc i0 + i) = Inr v \<and> es2 ! (js ! i) = attr k (Some v) (?es1 ! (js ! i))"
    using Cons.IH [OF 1 2(1) 3(1)] by blast+
  have b: "\<forall>j'<length es. j' \<notin> set (j # js) \<longrightarrow> es2 ! j' = es ! j'"
    using r(2) by simp
  have c: "\<forall>i<length (j # js). \<exists>v. f (i0 + i) = Inr v \<and>
      es2 ! ((j # js) ! i) = attr k (Some v) (es ! ((j # js) ! i))"
  proof (intro allI impI)
    fix i assume i: "i < length (j # js)"
    show "\<exists>v. f (i0 + i) = Inr v \<and> es2 ! ((j # js) ! i) = attr k (Some v) (es ! ((j # js) ! i))"
    proof (cases i)
      case 0
      then show ?thesis using r(2) 2(2) 3(2) v by simp
    next
      case (Suc i')
      then have "i' < length js" using i by simp
      moreover then have "j \<noteq> js ! i'" using 2(2) nth_mem by metis
      ultimately show ?thesis using r(3) Suc by auto
    qed
  qed
  show ?case using b c r(1) by simp
qed

lemma attr_fn_selectAll:
  assumes "attr_fn k f 0 (selectAll sel es0) es = Inr es2" "length es = length es0"
  shows "length es2 = length es"
    and "\<And>j. j < length es \<Longrightarrow> \<not> matches sel (es0 ! j) \<Longrightarrow> es2 ! j = es ! j"
    and "\<And>j. j < length es \<Longrightarrow> \<exists>v. es2 ! j = es ! j \<or> es2 ! j = attr k (Some v) (es ! j)"
    and "\<And>i. i < length (selectAll sel es0) \<Longrightarrow>
          \<exists>v. f i = Inr v \<and> es2 ! (selectAll sel es0 ! i) = attr k (Some v) (es ! (selectAll sel es0 ! i))"
proof -
  have in_range: "\<forall>j\<in>set (selectAll sel es0). j < length es"
    using assms(2) by (simp add: set_selectAll)
  note D = attr_fn_Inr_D [OF assms(1) distinct_selectAll in_range]
  show "length es2 = length es" using D by blast
  show "es2 ! j = es ! j" if "j < length es" "\<not> matches sel (es0 ! j)" for j
    using D that by (simp add: set_selectAll)
  show "\<exists>v. f i = Inr v \<and> es2 ! (selectAll sel es0 ! i) = attr k (Some v) (es ! (selectAll sel es0 ! i))"
    if "i < length (selectAll sel es0)" for i
    using D that by simp
  show "\<exists>v. es2 ! j = es ! j \<or> es2 ! j = attr k (Some v) (es ! j)" if "j < length es" for j
  proof (cases "j \<in> set (selectAll sel es0)")
    case True
    then obtain i where "i < length (selectAll sel es0)" "selectAll sel es0 ! i = j"
      by (auto simp add: in_set_conv_nth)
    then show ?thesis using D by blast
  next
    case False
    then show ?thesis using D that by blast
  qed
qed

lemma bind_data_at:
  "bind (data_at c i) (\<lambda>d. Inr (F d)) = Inr v \<longleftrightarrow> i < length (config.data c) \<and> v = F (config.data c ! i)"
  by (auto simp add: bind_def data_at_def)

lemma updateDataFromAxis_D:
  assumes "updateDataFromAxis c es = Inr es2"
  shows "length es2 = length es"
    and "\<And>j. j < length es \<Longrightarrow> \<not> matches ''.data'' (es ! j) \<Longrightarrow> es2 ! j = es ! j"
    and "\<And>i. i < length (selectAll ''.data'' es) \<Longrightarrow> i < length (config.data c) \<and>
          es2 ! (selectAll ''.data'' es ! i) =
            attr ''height'' (Some (N (scale_y c (Num (value' (config.data c ! i))) - marginTop c)))
             (attr ''y'' (Some (N (config.height c - marginBottom c + marginTop c
                                    - scale_y c (Num (value' (config.data c ! i))))))
               (attr ''fill'' (Some (S (fill_of (config.data c ! i) c)))
                 (es ! (selectAll ''.data'' es ! i))))"
proof -
  let ?sel = "selectAll ''.data'' es"
  let ?f1 = "\<lambda>i. bind (data_at c i) (\<lambda>d. Inr (S (fill_of d c)))"
  let ?f2 = "\<lambda>i. bind (data_at c i) (\<lambda>d. Inr (N (config.height c - marginBottom c + marginTop c
                - scale_y c (Num (value' d)))))"
  let ?f3 = "\<lambda>i. bind (data_at c i) (\<lambda>d. Inr (N (scale_y c (Num (value' d)) - marginTop c)))"
  obtain es0 es1 where s: "attr_fn ''fill'' ?f1 0 ?sel es = Inr es0"
      "attr_fn ''y'' ?f2 0 ?sel es0 = Inr es1" "attr_fn ''height'' ?f3 0 ?sel es1 = Inr es2"
    using assms unfolding updateDataFromAxis_def Let_def bind_def [of "attr_fn _ _ _ _ _"]
    by (auto split: sum.splits)
  note a = attr_fn_selectAll [OF s(1) refl]
  note b = attr_fn_selectAll [OF s(2) a(1)]
  have l1: "length es1 = length es" using a(1) b(1) by simp
  note d = attr_fn_selectAll [OF s(3) l1]
  show "length es2 = length es" using d(1) l1 by simp
  show "es2 ! j = es ! j" if "j < length es" "\<not> matches ''.data'' (es ! j)" for j
    using a(2) [of j] b(2) [of j] d(2) [of j] a(1) l1 that by simp
  show "i < length (config.data c) \<and>
          es2 ! (?sel ! i) =
            attr ''height'' (Some (N (scale_y c (Num (value' (config.data c ! i))) - marginTop c)))
             (attr ''y'' (Some (N (config.height c - marginBottom c + marginTop c
                                    - scale_y c (Num (value' (config.data c ! i))))))
               (attr ''fill'' (Some (S (fill_of (config.data c ! i) c))) (es ! (?sel ! i))))"
    if "i < length ?sel" for i
    using a(4) [OF that] b(4) [OF that] d(4) [OF that] by (auto simp add: bind_data_at)
qed

lemma updateDataFromBaseline_D:
  assumes "updateDataFromBaseline c es = Inr es2"
  shows "length es2 = length es"
    and "\<And>j. j < length es \<Longrightarrow> \<not> matches ''.data'' (es ! j) \<Longrightarrow> es2 ! j = es ! j"
    and "\<And>i. i < length (selectAll ''.data'' es) \<Longrightarrow> i < length (config.data c) \<and>
          es2 ! (selectAll ''.data'' es ! i) =
            attr ''height'' (Some (N
                (if truthy_number (Num (value' (config.data c ! i)))
                 then \<bar>scale_y c (nullToNumber (config.baseline c))
                       - scale_y c (Num (value' (config.data c ! i)))\<bar>
                 else Num 0)))
             (attr ''y'' (Some (N
                (if Num (value' (config.data c ! i)) \<ge> nullToNumber (config.baseline c)
                 then config.height c - marginBottom c + marginTop c
                        - scale_y c (nullToNumber (config.baseline c))
                      - \<bar>scale_y c (nullToNumber (config.baseline c))
                          - scale_y c (Num (value' (config.data c ! i)))\<bar>
                 else config.height c - marginBottom c + marginTop c
                        - scale_y c (nullToNumber (config.baseline c)))))
               (attr ''fill'' (Some (S (fill_of (config.data c ! i) c)))
                 (es ! (selectAll ''.data'' es ! i))))"
proof -
  let ?sel = "selectAll ''.data'' es"
  let ?b = "nullToNumber (config.baseline c)"
  let ?bY = "config.height c - marginBottom c + marginTop c - scale_y c ?b"
  let ?f1 = "\<lambda>i. bind (data_at c i) (\<lambda>d. Inr (S (fill_of d c)))"
  let ?f2 = "\<lambda>i. bind (data_at c i) (\<lambda>d. Inr (N
              (if Num (value' d) \<ge> ?b
               then ?bY - \<bar>scale_y c ?b - scale_y c (Num (value' d))\<bar>
               else ?bY)))"
  let ?f3 = "\<lambda>i. bind (data_at c i) (\<lambda>d. Inr (N
              (if truthy_number (Num (value' d))
               then \<bar>scale_y c ?b - scale_y c (Num (value' d))\<bar>
               else Num 0)))"
  obtain es0 es1 where s: "attr_fn ''fill'' ?f1 0 ?sel es = Inr es0"
      "attr_fn ''y'' ?f2 0 ?sel es0 = Inr es1" "attr_fn ''height'' ?f3 0 ?sel es1 = Inr es2"
    using assms unfolding updateDataFromBaseline_def Let_def bind_def [of "attr_fn _ _ _ _ _"]
    by (auto split: sum.splits)
  note a = attr_fn_selectAll [OF s(1) refl]
  note b = attr_fn_selectAll [OF s(2) a(1)]
  have l1: "length es1 = length es" using a(1) b(1) by simp
  note d = attr_fn_selectAll [OF s(3) l1]
  show "length es2 = length es" using d(1) l1 by simp
  show "es2 ! j = es ! j" if "j < length es" "\<not> matches ''.data'' (es ! j)" for j
    using a(2) [of j] b(2) [of j] d(2) [of j] a(1) l1 that by simp
  show "i < length (config.data c) \<and>
          es2 ! (?sel ! i) =
            attr ''height'' (Some (N
                (if truthy_number (Num (value' (config.data c ! i)))
                 then \<bar>scale_y c ?b - scale_y c (Num (value' (config.data c ! i)))\<bar>
                 else Num 0)))
             (attr ''y'' (Some (N
                (if Num (value' (config.data c ! i)) \<ge> ?b
                 then ?bY - \<bar>scale_y c ?b - scale_y c (Num (value' (config.data c ! i)))\<bar>
                 else ?bY)))
               (attr ''fill'' (Some (S (fill_of (config.data c ! i) c))) (es ! (?sel ! i))))"
    if "i < length ?sel" for i
    using a(4) [OF that] b(4) [OF that] d(4) [OF that] by (auto simp add: bind_data_at)
qed

lemma updateReference_D:
  assumes "updateReference c es = Inr es2"
  shows "length es2 = length es"
    and "\<And>j. j < length es \<Longrightarrow> \<not> matches ''.reference'' (es ! j) \<Longrightarrow> es2 ! j = es ! j"
    and "\<And>i. i < length (selectAll ''.reference'' es) \<Longrightarrow> i < length (config.data c) \<and>
          es2 ! (selectAll ''.reference'' es ! i) =
            attr ''y2'' (Some (N (config.height c - marginBottom c + marginTop c
                                   - scale_y c (reference_or_0 (reference (config.data c ! i))))))
             (attr ''y1'' (Some (N (config.height c - marginBottom c + marginTop c
                                   - scale_y c (reference_or_0 (reference (config.data c ! i))))))
               (es ! (selectAll ''.reference'' es ! i)))"
proof -
  let ?sel = "selectAll ''.reference'' es"
  let ?f = "\<lambda>i. bind (data_at c i) (\<lambda>d. Inr (N (config.height c - marginBottom c + marginTop c
                - scale_y c (reference_or_0 (reference d)))))"
  obtain es0 where s: "attr_fn ''y1'' ?f 0 ?sel es = Inr es0" "attr_fn ''y2'' ?f 0 ?sel es0 = Inr es2"
    using assms unfolding updateReference_def Let_def bind_def [of "attr_fn _ _ _ _ _"]
    by (auto split: sum.splits)
  note a = attr_fn_selectAll [OF s(1) refl]
  note b = attr_fn_selectAll [OF s(2) a(1)]
  show "length es2 = length es" using a(1) b(1) by simp
  show "es2 ! j = es ! j" if "j < length es" "\<not> matches ''.reference'' (es ! j)" for j
    using a(2) [of j] b(2) [of j] a(1) that by simp
  show "i < length (config.data c) \<and>
          es2 ! (?sel ! i) =
            attr ''y2'' (Some (N (config.height c - marginBottom c + marginTop c
                                   - scale_y c (reference_or_0 (reference (config.data c ! i))))))
             (attr ''y1'' (Some (N (config.height c - marginBottom c + marginTop c
                                   - scale_y c (reference_or_0 (reference (config.data c ! i))))))
               (es ! (?sel ! i)))"
    if "i < length ?sel" for i
    using a(4) [OF that] b(4) [OF that] by (auto simp add: bind_data_at)
qed

lemma touched_only_refl: "touched_only K e e"
  by (simp add: touched_only_def)

lemma touched_only_attr: "k \<in> K \<Longrightarrow> touched_only K e e2 \<Longrightarrow> touched_only K e (attr k v e2)"
  by (cases v) (auto simp add: touched_only_def attr_def update_conv' delete_conv')

lemma touched_only_classList:
  "touched_only K e e2 \<Longrightarrow> ''class'' \<notin> K \<Longrightarrow> classList e2 = classList e"
  by (simp add: touched_only_def classList_def)

lemma touched_only_matches:
  "touched_only K e e2 \<Longrightarrow> ''class'' \<notin> K \<Longrightarrow> matches sel e2 = matches sel e"
  using touched_only_classList [of K e e2] by (simp add: matches_def touched_only_def)

lemma touched_only_trans:
  "touched_only K e e1 \<Longrightarrow> touched_only K e1 e2 \<Longrightarrow> touched_only K e e2"
  by (simp add: touched_only_def)

lemma touched_only_mono: "touched_only K e e2 \<Longrightarrow> K \<subseteq> L \<Longrightarrow> touched_only L e e2"
  by (auto simp add: touched_only_def)

lemma selectAll_touched:
  assumes "length es2 = length es" "\<forall>j<length es. touched_only K (es ! j) (es2 ! j)" "''class'' \<notin> K"
  shows "selectAll sel es2 = selectAll sel es"
  unfolding selectAll_def assms(1)
  by (rule filter_cong [OF refl]) (use assms touched_only_matches in auto)

lemma nth_filter_selectAll:
  "i < length (filter (matches sel) es) \<Longrightarrow> filter (matches sel) es ! i = es ! (selectAll sel es ! i)"
  using nth_selectAll [of i sel es] by (simp add: length_selectAll)

lemma selectAll_nth_matches:
  "i < length (selectAll sel es) \<Longrightarrow> selectAll sel es ! i < length es \<and> matches sel (es ! (selectAll sel es ! i))"
  using nth_mem [of i "selectAll sel es"] by (simp add: set_selectAll)

lemma matched_index:
  "j < length es \<Longrightarrow> matches sel (es ! j) \<Longrightarrow> \<exists>i<length (selectAll sel es). selectAll sel es ! i = j"
  using set_selectAll [of sel es] by (metis (mono_tags, lifting) in_set_conv_nth mem_Collect_eq)

lemma updateDataFromAxis_touched:
  assumes "updateDataFromAxis c es = Inr es2" "j < length es"
  shows "touched_only {''fill'', ''y'', ''height''} (es ! j) (es2 ! j)"
proof (cases "matches ''.data'' (es ! j)")
  case True
  then obtain i where i: "i < length (selectAll ''.data'' es)" "selectAll ''.data'' es ! i = j"
    using matched_index assms(2) by blast
  show ?thesis
    using updateDataFromAxis_D(3) [OF assms(1) i(1)] unfolding i(2)
    by (simp add: touched_only_attr touched_only_refl)
next
  case False
  then show ?thesis
    using updateDataFromAxis_D(2) [OF assms(1) assms(2)] by (simp add: touched_only_refl)
qed

lemma updateDataFromBaseline_touched:
  assumes "updateDataFromBaseline c es = Inr es2" "j < length es"
  shows "touched_only {''fill'', ''y'', ''height''} (es ! j) (es2 ! j)"
proof (cases "matches ''.data'' (es ! j)")
  case True
  then obtain i where i: "i < length (selectAll ''.data'' es)" "selectAll ''.data'' es ! i = j"
    using matched_index assms(2) by blast
  show ?thesis
    using updateDataFromBaseline_D(3) [OF assms(1) i(1)] unfolding i(2)
    by (simp add: touched_only_attr touched_only_refl)
next
  case False
  then show ?thesis
    using updateDataFromBaseline_D(2) [OF assms(1) assms(2)] by (simp add: touched_only_refl)
qed

lemma updateReference_touched:
  assumes "updateReference c es = Inr es2" "j < length es"
  shows "touched_only {''y1'', ''y2''} (es ! j) (es2 ! j)"
proof (cases "matches ''.reference'' (es ! j)")
  case True
  then obtain i where i: "i < length (selectAll ''.reference'' es)" "selectAll ''.reference'' es ! i = j"
    using matched_index assms(2) by blast
  show ?thesis
    using updateReference_D(3) [OF assms(1) i(1)] unfolding i(2)
    by (simp add: touched_only_attr touched_only_refl)
next
  case False
  then show ?thesis
    using updateReference_D(2) [OF assms(1) assms(2)] by (simp add: touched_only_refl)
qed

lemma params_update_D:
  assumes "params_update chart newData = Inr chart2"
  obtains es1 where
    "chart2 = chart\<lparr>config := (chart.config chart)\<lparr>config.data := newData\<rparr>, svg := chart.svg chart2\<rparr>"
    "(if chart.showBaseline chart
      then updateDataFromBaseline ((chart.config chart)\<lparr>config.data := newData\<rparr>) (chart.svg chart)
      else updateDataFromAxis ((chart.config chart)\<lparr>config.data := newData\<rparr>) (chart.svg chart)) = Inr es1"
    "updateReference ((chart.config chart)\<lparr>config.data := newData\<rparr>) es1 = Inr (chart.svg chart2)"
  using assms unfolding params_update_def Let_def updateErrorBars_def bind_def
  by (auto split: sum.splits)

lemma column_rect_targets:
  "map_of (attrs (column_rect ch i d)) ''fill'' = Some (S (fill_of d (chart.config ch)))"
  "map_of (attrs (column_rect ch i d)) ''y'' = Some (N
     (if chart.showBaseline ch
      then (if Num (value' d) \<ge> nullToNumber (config.baseline (chart.config ch))
            then config.height (chart.config ch) - marginBottom (chart.config ch) + marginTop (chart.config ch)
                   - scale_y (chart.config ch) (nullToNumber (config.baseline (chart.config ch)))
                 - \<bar>scale_y (chart.config ch) (nullToNumber (config.baseline (chart.config ch)))
                     - scale_y (chart.config ch) (Num (value' d))\<bar>
            else config.height (chart.config ch) - marginBottom (chart.config ch) + marginTop (chart.config ch)
                   - scale_y (chart.config ch) (nullToNumber (config.baseline (chart.config ch))))
      else config.height (chart.config ch) - marginBottom (chart.config ch) + marginTop (chart.config ch)
             - scale_y (chart.config ch) (Num (value' d))))"
  "map_of (attrs (column_rect ch i d)) ''height'' = Some (N
     (if chart.showBaseline ch
      then (if truthy_number (Num (value' d))
            then \<bar>scale_y (chart.config ch) (nullToNumber (config.baseline (chart.config ch)))
                  - scale_y (chart.config ch) (Num (value' d))\<bar>
            else Num 0)
      else scale_y (chart.config ch) (Num (value' d)) - marginTop (chart.config ch)))"
  by (simp_all add: column_rect_def axis_rect_attrs baseline_rect_attrs)

lemma reference_line_targets:
  "map_of (attrs (reference_line c i d)) ''y1'' = Some (N
     (config.height c - marginBottom c + marginTop c - scale_y c (reference_or_0 (reference d))))"
  "map_of (attrs (reference_line c i d)) ''y2'' = Some (N
     (config.height c - marginBottom c + marginTop c - scale_y c (reference_or_0 (reference d))))"
  by (simp_all add: reference_line_attrs)

lemma geometry_data_update:
  "scale_y (c\<lparr>config.data := ds\<rparr>) = scale_y c"
  "fill_of d (c\<lparr>config.data := ds\<rparr>) = fill_of d c"
  by (simp_all add: scale_y_def fill_of_def fun_eq_iff split: option.splits)

lemma touched_only_D:
  "touched_only K e e2 \<Longrightarrow> k \<notin> K \<Longrightarrow> map_of (attrs e2) k = map_of (attrs e) k"
  by (simp add: touched_only_def)

lemma params_update_nodes:
  assumes "params_update chart newData = Inr chart2"
  shows "length (chart.svg chart2) = length (chart.svg chart)"
    and "\<And>j. j < length (chart.svg chart) \<Longrightarrow>
          touched_only {''fill'', ''y'', ''height'', ''y1'', ''y2''} (chart.svg chart ! j) (chart.svg chart2 ! j)"
    and "\<And>j. j < length (chart.svg chart) \<Longrightarrow> chrome (chart.svg chart ! j) \<Longrightarrow>
          chart.svg chart2 ! j = chart.svg chart ! j"
    and "\<And>i. i < length (filter (matches ''.data'') (chart.svg chart2)) \<Longrightarrow> i < length newData \<and>
          (\<forall>k\<in>{''fill'', ''y'', ''height''}.
             map_of (attrs (filter (matches ''.data'') (chart.svg chart2) ! i)) k
               = map_of (attrs (column_rect chart2 i (newData ! i))) k)"
    and "\<And>i. i < length (filter (matches ''.reference'') (chart.svg chart2)) \<Longrightarrow> i < length newData \<and>
          (\<forall>k\<in>{''y1'', ''y2''}.
             map_of (attrs (filter (matches ''.reference'') (chart.svg chart2) ! i)) k
               = map_of (attrs (reference_line (chart.config chart2) i (newData ! i))) k)"
proof -
  let ?c = "(chart.config chart)\<lparr>config.data := newData\<rparr>"
  let ?es = "chart.svg chart"
  let ?es2 = "chart.svg chart2"
  let ?K = "{''fill'', ''y'', ''height'', ''y1'', ''y2''}"
  obtain es1 where u: "chart2 = chart\<lparr>config := ?c, svg := ?es2\<rparr>"
    "(if chart.showBaseline chart then updateDataFromBaseline ?c ?es else updateDataFromAxis ?c ?es) = Inr es1"
    "updateReference ?c es1 = Inr ?es2"
    using params_update_D [OF assms] by blast
  have c2: "chart.config chart2 = ?c" "chart.showBaseline chart2 = chart.showBaseline chart"
    by (subst u(1), simp)+
  have l1: "length es1 = length ?es"
    using u(2) updateDataFromBaseline_D(1) updateDataFromAxis_D(1) by (auto split: if_splits)
  have l2: "length ?es2 = length es1"
    using u(3) updateReference_D(1) by blast
  show len: "length ?es2 = length ?es" using l1 l2 by simp
  have t1: "touched_only {''fill'', ''y'', ''height''} (?es ! j) (es1 ! j)" if "j < length ?es" for j
    using u(2) that updateDataFromBaseline_touched updateDataFromAxis_touched by (auto split: if_splits)
  have t2: "touched_only {''y1'', ''y2''} (es1 ! j) (?es2 ! j)" if "j < length ?es" for j
    using u(3) that l1 updateReference_touched by auto
  show t: "touched_only ?K (?es ! j) (?es2 ! j)" if "j < length ?es" for j
    by (rule touched_only_trans [OF touched_only_mono [OF t1 [OF that]] touched_only_mono [OF t2 [OF that]]])
       auto
  have s1: "selectAll sel es1 = selectAll sel ?es" for sel
    by (rule selectAll_touched [OF l1, of "{''fill'', ''y'', ''height''}"]) (use t1 in auto)
  have s2: "selectAll sel ?es2 = selectAll sel ?es" for sel
    by (rule selectAll_touched [OF len, of ?K]) (use t in auto)
  have f2: "length (filter (matches sel) ?es2) = length (selectAll sel ?es)" for sel
    using length_selectAll [of sel ?es2] s2 by simp
  show "?es2 ! j = ?es ! j" if j: "j < length ?es" "chrome (?es ! j)" for j
  proof -
    have n: "\<not> matches ''.data'' (?es ! j)" "\<not> matches ''.reference'' (?es ! j)"
      using chrome_not_matches [OF j(2)] by simp_all
    have 1: "es1 ! j = ?es ! j"
      using u(2) n(1) j(1) updateDataFromBaseline_D(2) updateDataFromAxis_D(2) by (auto split: if_splits)
    have "?es2 ! j = es1 ! j"
      using updateReference_D(2) [OF u(3), of j] n(2) j(1) l1 1 by simp
    then show ?thesis using 1 by simp
  qed
  show "i < length newData \<and>
          (\<forall>k\<in>{''fill'', ''y'', ''height''}.
             map_of (attrs (filter (matches ''.data'') ?es2 ! i)) k
               = map_of (attrs (column_rect chart2 i (newData ! i))) k)"
    if i: "i < length (filter (matches ''.data'') ?es2)" for i
  proof -
    let ?j = "selectAll ''.data'' ?es ! i"
    have i': "i < length (selectAll ''.data'' ?es)" using i f2 by simp
    have j: "?j < length ?es" using selectAll_nth_matches [OF i'] by simp
    have e: "filter (matches ''.data'') ?es2 ! i = ?es2 ! ?j"
      using nth_filter_selectAll [OF i] s2 by simp
    have o: "map_of (attrs (?es2 ! ?j)) ''fill'' = map_of (attrs (es1 ! ?j)) ''fill''"
      "map_of (attrs (?es2 ! ?j)) ''y'' = map_of (attrs (es1 ! ?j)) ''y''"
      "map_of (attrs (?es2 ! ?j)) ''height'' = map_of (attrs (es1 ! ?j)) ''height''"
      by (rule touched_only_D [OF t2 [OF j]], simp)+
    show ?thesis
    proof (cases "chart.showBaseline chart")
      case True
      then have "updateDataFromBaseline ?c ?es = Inr es1" using u(2) by simp
      from updateDataFromBaseline_D(3) [OF this i']
      show ?thesis
        unfolding e using o True
        by (simp add: column_rect_targets c2 attr_this attr_other geometry_data_update)
    next
      case False
      then have "updateDataFromAxis ?c ?es = Inr es1" using u(2) by simp
      from updateDataFromAxis_D(3) [OF this i']
      show ?thesis
        unfolding e using o False
        by (simp add: column_rect_targets c2 attr_this attr_other geometry_data_update)
    qed
  qed
  show "i < length newData \<and>
          (\<forall>k\<in>{''y1'', ''y2''}.
             map_of (attrs (filter (matches ''.reference'') ?es2 ! i)) k
               = map_of (attrs (reference_line (chart.config chart2) i (newData ! i))) k)"
    if i: "i < length (filter (matches ''.reference'') ?es2)" for i
  proof -
    let ?j = "selectAll ''.reference'' es1 ! i"
    have i': "i < length (selectAll ''.reference'' es1)" using i f2 s1 by simp
    have e: "filter (matches ''.reference'') ?es2 ! i = ?es2 ! ?j"
      using nth_filter_selectAll [OF i] s2 s1 by simp
    from updateReference_D(3) [OF u(3) i']
    show ?thesis
      unfolding e
      by (simp add: reference_line_targets c2 attr_this attr_other geometry_data_update)
  qed
qed

lemma attr_fn_succeeds:
  "\<forall>i<length js. \<exists>v. f (i0 + i) = Inr v \<Longrightarrow> \<exists>es2. attr_fn k f i0 js es = Inr es2"
proof (induction js arbitrary: i0 es)
  case Nil
  then show ?case by simp
next
  case (Cons j js)
  obtain v where v: "f i0 = Inr v" using Cons.prems by force
  have "\<forall>i<length js. \<exists>v. f (Suc i0 + i) = Inr v" using Cons.prems by force
  then show ?case using Cons.IH [of "Suc i0"] v by simp
qed

lemma attr_fn_data_succeeds:
  "length js \<le> length (config.data c) \<Longrightarrow>
   \<exists>es2. attr_fn k (\<lambda>i. bind (data_at c i) (\<lambda>d. Inr (F d))) 0 js es = Inr es2"
  by (rule attr_fn_succeeds) (simp add: bind_def data_at_def)

lemma bind_Inr: "bind (Inr a) f = f a"
  by (simp add: bind_def)

lemma updateData_succeeds:
  assumes "length (selectAll ''.data'' es) \<le> length (config.data c)"
  shows "\<exists>es1. updateDataFromAxis c es = Inr es1" and "\<exists>es1. updateDataFromBaseline c es = Inr es1"
proof -
  note s = attr_fn_data_succeeds [OF assms]
  show "\<exists>es1. updateDataFromAxis c es = Inr es1"
  proof -
    have "\<exists>a. attr_fn ''fill'' (\<lambda>i. bind (data_at c i) (\<lambda>d. Inr (S (fill_of d c)))) 0
        (selectAll ''.data'' es) es = Inr a"
      by (rule s)
    then obtain a where a: "attr_fn ''fill'' (\<lambda>i. bind (data_at c i) (\<lambda>d. Inr (S (fill_of d c)))) 0
        (selectAll ''.data'' es) es = Inr a" by blast
    have "\<exists>b. attr_fn ''y'' (\<lambda>i. bind (data_at c i) (\<lambda>d. Inr (N
              (config.height c - marginBottom c + marginTop c
                - scale_y c (Num (value' d)))))) 0 (selectAll ''.data'' es) a = Inr b"
      by (rule s)
    then obtain b where b: "attr_fn ''y'' (\<lambda>i. bind (data_at c i) (\<lambda>d. Inr (N
              (config.height c - marginBottom c + marginTop c
                - scale_y c (Num (value' d)))))) 0 (selectAll ''.data'' es) a = Inr b" by blast
    show ?thesis
      unfolding updateDataFromAxis_def Let_def a b bind_Inr by (rule s)
  qed
  show "\<exists>es1. updateDataFromBaseline c es = Inr es1"
  proof -
    have "\<exists>a. attr_fn ''fill'' (\<lambda>i. bind (data_at c i) (\<lambda>d. Inr (S (fill_of d c)))) 0
        (selectAll ''.data'' es) es = Inr a"
      by (rule s)
    then obtain a where a: "attr_fn ''fill'' (\<lambda>i. bind (data_at c i) (\<lambda>d. Inr (S (fill_of d c)))) 0
        (selectAll ''.data'' es) es = Inr a" by blast
    have "\<exists>b. attr_fn ''y'' (\<lambda>i. bind (data_at c i) (\<lambda>d. Inr (N
              (if Num (value' d) \<ge> nullToNumber (config.baseline c)
               then config.height c - marginBottom c + marginTop c
                      - scale_y c (nullToNumber (config.baseline c))
                    - \<bar>scale_y c (nullToNumber (config.baseline c)) - scale_y c (Num (value' d))\<bar>
               else config.height c - marginBottom c + marginTop c
                      - scale_y c (nullToNumber (config.baseline c)))))) 0
        (selectAll ''.data'' es) a = Inr b"
      by (rule s)
    then obtain b where b: "attr_fn ''y'' (\<lambda>i. bind (data_at c i) (\<lambda>d. Inr (N
              (if Num (value' d) \<ge> nullToNumber (config.baseline c)
               then config.height c - marginBottom c + marginTop c
                      - scale_y c (nullToNumber (config.baseline c))
                    - \<bar>scale_y c (nullToNumber (config.baseline c)) - scale_y c (Num (value' d))\<bar>
               else config.height c - marginBottom c + marginTop c
                      - scale_y c (nullToNumber (config.baseline c)))))) 0
        (selectAll ''.data'' es) a = Inr b" by blast
    show ?thesis
      unfolding updateDataFromBaseline_def Let_def a b bind_Inr by (rule s)
  qed
qed

lemma updateReference_succeeds:
  assumes "length (selectAll ''.reference'' es) \<le> length (config.data c)"
  shows "\<exists>es1. updateReference c es = Inr es1"
proof -
  note s = attr_fn_data_succeeds [OF assms]
  have "\<exists>a. attr_fn ''y1'' (\<lambda>i. bind (data_at c i) (\<lambda>d. Inr (N
              (config.height c - marginBottom c + marginTop c
                - scale_y c (reference_or_0 (reference d)))))) 0 (selectAll ''.reference'' es) es = Inr a"
    by (rule s)
  then obtain a where a: "attr_fn ''y1'' (\<lambda>i. bind (data_at c i) (\<lambda>d. Inr (N
              (config.height c - marginBottom c + marginTop c
                - scale_y c (reference_or_0 (reference d)))))) 0 (selectAll ''.reference'' es) es = Inr a"
    by blast
  show ?thesis
    unfolding updateReference_def Let_def a bind_Inr by (rule s)
qed

lemma params_update_succeeds:
  assumes "length (filter (matches ''.data'') (chart.svg chart)) \<le> length newData"
    and "length (filter (matches ''.reference'') (chart.svg chart)) \<le> length newData"
  shows "\<exists>chart2. params_update chart newData = Inr chart2"
proof -
  let ?c = "(chart.config chart)\<lparr>config.data := newData\<rparr>"
  let ?es = "chart.svg chart"
  have "length (selectAll ''.data'' ?es) \<le> length (config.data ?c)"
    using assms(1) by (simp add: length_selectAll)
  note 1 = updateData_succeeds [OF this]
  obtain es1 where es1: "(if chart.showBaseline chart then updateDataFromBaseline ?c ?es
      else updateDataFromAxis ?c ?es) = Inr es1"
    using 1 by (cases "chart.showBaseline chart") auto
  have l1: "length es1 = length ?es"
    using es1 updateDataFromBaseline_D(1) updateDataFromAxis_D(1) by (auto split: if_splits)
  have t1: "\<forall>j<length ?es. touched_only {''fill'', ''y'', ''height''} (?es ! j) (es1 ! j)"
    using es1 updateDataFromBaseline_touched updateDataFromAxis_touched by (auto split: if_splits)
  have s1: "selectAll ''.reference'' es1 = selectAll ''.reference'' ?es"
    by (rule selectAll_touched [OF l1 t1]) simp
  have "length (selectAll ''.reference'' es1) \<le> length (config.data ?c)"
    using assms(2) by (simp add: s1 length_selectAll)
  then obtain es2 where es2: "updateReference ?c es1 = Inr es2"
    using updateReference_succeeds by blast
  show ?thesis
    unfolding params_update_def Let_def es1 updateErrorBars_def bind_Inr es2
    by simp
qed

lemma link_update_same:
  assumes "link ts ps = Inr chart"
  shows "params_update chart (config.data (chart.config chart)) = Inr chart"
proof -
  let ?c = "chart.config chart"
  let ?es = "chart.svg chart"
  let ?sel = "selectAll ''.data'' ?es"
  let ?ref = "selectAll ''.reference'' ?es"
  have c: "?c\<lparr>config.data := config.data ?c\<rparr> = ?c" by simp
  have n: "length ?sel = length (config.data ?c)" "length ?ref = length (config.data ?c)"
    by (simp_all add: length_selectAll link_nodes [OF assms])
  have bar: "?sel ! i < length ?es \<and> ?es ! (?sel ! i) = column_rect chart i (config.data ?c ! i)"
    if "i < length (config.data ?c)" for i
    using selectAll_nth_matches [of i "''.data''" ?es] nth_selectAll [of i "''.data''" ?es] that n
    by (simp add: link_nodes(1) [OF assms] nth_enumerate_eq)
  have ref: "?ref ! i < length ?es \<and> ?es ! (?ref ! i) = reference_line ?c i (config.data ?c ! i)"
    if "i < length (config.data ?c)" for i
    using selectAll_nth_matches [of i "''.reference''" ?es] nth_selectAll [of i "''.reference''" ?es] that n
    by (simp add: link_nodes(2) [OF assms] nth_enumerate_eq)
  have noop: "attr_fn k (\<lambda>i. bind (data_at ?c i) (\<lambda>d. Inr (F d))) 0 ?sel ?es = Inr ?es"
    if "\<And>i d. Some (F d) = map_of (attrs (column_rect chart i d)) k" for k F
    by (rule attr_fn_noop [where g = "\<lambda>i. F (config.data ?c ! i)"])
       (use bar n that [symmetric] in \<open>simp add: bind_def data_at_def\<close>)
  have noop_ref: "attr_fn k (\<lambda>i. bind (data_at ?c i) (\<lambda>d. Inr (F d))) 0 ?ref ?es = Inr ?es"
    if "\<And>i d. Some (F d) = map_of (attrs (reference_line ?c i d)) k" for k F
    by (rule attr_fn_noop [where g = "\<lambda>i. F (config.data ?c ! i)"])
       (use ref n that [symmetric] in \<open>simp add: bind_def data_at_def\<close>)
  have f: "attr_fn ''fill'' (\<lambda>i. bind (data_at ?c i) (\<lambda>d. Inr (S (fill_of d ?c)))) 0 ?sel ?es = Inr ?es"
    by (rule noop) (simp add: column_rect_targets)
  have d: "(if chart.showBaseline chart then updateDataFromBaseline ?c ?es
      else updateDataFromAxis ?c ?es) = Inr ?es"
  proof (cases "chart.showBaseline chart")
    case True
    have y: "attr_fn ''y'' (\<lambda>i. bind (data_at ?c i) (\<lambda>d. Inr (N
              (if Num (value' d) \<ge> nullToNumber (config.baseline ?c)
               then config.height ?c - marginBottom ?c + marginTop ?c
                      - scale_y ?c (nullToNumber (config.baseline ?c))
                    - \<bar>scale_y ?c (nullToNumber (config.baseline ?c)) - scale_y ?c (Num (value' d))\<bar>
               else config.height ?c - marginBottom ?c + marginTop ?c
                      - scale_y ?c (nullToNumber (config.baseline ?c)))))) 0 ?sel ?es = Inr ?es"
      by (rule noop) (simp add: column_rect_targets True)
    have h: "attr_fn ''height'' (\<lambda>i. bind (data_at ?c i) (\<lambda>d. Inr (N
              (if truthy_number (Num (value' d))
               then \<bar>scale_y ?c (nullToNumber (config.baseline ?c)) - scale_y ?c (Num (value' d))\<bar>
               else Num 0)))) 0 ?sel ?es = Inr ?es"
      by (rule noop) (simp add: column_rect_targets True)
    have "updateDataFromBaseline ?c ?es = Inr ?es"
      unfolding updateDataFromBaseline_def Let_def f y bind_Inr by (rule h)
    then show ?thesis using True by simp
  next
    case False
    have y: "attr_fn ''y'' (\<lambda>i. bind (data_at ?c i) (\<lambda>d. Inr (N
              (config.height ?c - marginBottom ?c + marginTop ?c
                - scale_y ?c (Num (value' d)))))) 0 ?sel ?es = Inr ?es"
      by (rule noop) (simp add: column_rect_targets False)
    have h: "attr_fn ''height'' (\<lambda>i. bind (data_at ?c i) (\<lambda>d. Inr (N
              (scale_y ?c (Num (value' d)) - marginTop ?c)))) 0 ?sel ?es = Inr ?es"
      by (rule noop) (simp add: column_rect_targets False)
    have "updateDataFromAxis ?c ?es = Inr ?es"
      unfolding updateDataFromAxis_def Let_def f y bind_Inr by (rule h)
    then show ?thesis using False by simp
  qed
  have y1: "attr_fn k (\<lambda>i. bind (data_at ?c i) (\<lambda>d. Inr (N
              (config.height ?c - marginBottom ?c + marginTop ?c
                - scale_y ?c (reference_or_0 (reference d)))))) 0 ?ref ?es = Inr ?es"
    if "k = ''y1'' \<or> k = ''y2''" for k
    by (rule noop_ref) (use that in \<open>auto simp add: reference_line_targets\<close>)
  have r: "updateReference ?c ?es = Inr ?es"
    unfolding updateReference_def Let_def y1 [of "''y1''", simplified] bind_Inr
    by (rule y1) simp
  show ?thesis
    unfolding params_update_def Let_def c d bind_Inr updateErrorBars_def r
    by simp
qed

lemma link_border:
  assumes "link ts ps = Inr chart"
  shows "\<exists>j<length (chart.svg chart). chrome (chart.svg chart ! j)"
proof -
  obtain c0 where c0: "chart = params_render ts c0"
    using assms by (auto simp add: link_Inr_iff)
  let ?c = "chart.config c0"
  obtain X where X: "chart.svg chart = renderReference ?c (renderBorders ?c X)"
    unfolding c0 params_render_def Let_def by simp
  obtain new where new: "renderBorders ?c X = X @ new" "\<forall>e\<in>set new. chrome e"
    using borders_chrome [of ?c] unfolding adds_chrome_def by blast
  have "new \<noteq> []" using new(1) by (auto simp add: renderBorders_def)
  then obtain e where e: "e \<in> set new" by (cases new) auto
  then have "e \<in> set (chart.svg chart)"
    unfolding X renderReference_def new(1) by simp
  then obtain j where "j < length (chart.svg chart)" "chart.svg chart ! j = e"
    by (auto simp add: in_set_conv_nth)
  then show ?thesis using e new(2) by auto
qed

text \<open>The example of the spec: two columns, the domain from 0 to 10, the default size.\<close>

lemma link_example:
  assumes "link toString_integer ps = Inr chart"
    and "params.data ps = Json [d0, d1]" "params.max' ps = Some ''10''" "params.min' ps = None"
    and "params.width ps = None" "params.height ps = None" "params.showXAxis ps = None"
  shows "config.data (chart.config chart) = [d0, d1]"
    and "marginTop (chart.config chart) = Num 6"
    and "scale_y (chart.config chart) (Num v) = Num (6 + v / 10 * 68)"
    and "length (filter (matches ''.data'') (chart.svg chart)) = 2"
    and "length (filter (matches ''.reference'') (chart.svg chart)) = 2"
    and "config.height (chart.config chart) = Num 75"
    and "marginBottom (chart.config chart) = Num 1"
proof -
  let ?c = "chart.config chart"
  obtain t where c: "?c = chart.config (link_chart toString_integer ps t [d0, d1])"
    using assms(1,2) by (simp add: link_Inr_iff params_render_frame)
  show d: "config.data ?c = [d0, d1]"
    unfolding c by (simp add: link_config_fields)
  have f: "config.height ?c = Num 75" "config.min' ?c = Num 0" "config.max' ?c = Num 10"
      "config.width ?c = Num 150"
    unfolding c using assms(3-7)
    by (simp_all add: link_config_fields truthy_str_def parseFloat_simps Let_def)
  have w: "colWidth ?c = Num 20"
    using link_colWidth [OF assms(1)] by (simp add: f d getColWidth_def Let_def)
  show m: "marginTop ?c = Num 6"
    using w unfolding c link_config_geometry(2) by (simp add: getFontSize_def Let_def)
  have mb: "marginBottom ?c = Num 1"
    using w assms(7) unfolding c link_config_geometry(3) by (simp add: getFontSize_def Let_def)
  have "yScale ?c = linear (Num 0, Num 10) (Num 6, Num 74)"
    using link_config_geometry(6) [of toString_integer ps t "[d0, d1]"] f m mb
    unfolding c [symmetric] by simp
  then show "scale_y ?c (Num v) = Num (6 + v / 10 * 68)"
    by (simp add: scale_y_def apply_linear)
  show "length (filter (matches ''.data'') (chart.svg chart)) = 2"
    "length (filter (matches ''.reference'') (chart.svg chart)) = 2"
    by (simp_all add: link_nodes [OF assms(1)] d)
  show "config.height ?c = Num 75" "marginBottom ?c = Num 1"
    by (rule f mb)+
qed

lemma params_update_selectAll:
  assumes "params_update chart newData = Inr chart2"
  shows "selectAll sel (chart.svg chart2) = selectAll sel (chart.svg chart)"
    and "length (filter (matches sel) (chart.svg chart2)) = length (filter (matches sel) (chart.svg chart))"
proof -
  show s: "selectAll sel (chart.svg chart2) = selectAll sel (chart.svg chart)"
    by (rule selectAll_touched [OF params_update_nodes(1) [OF assms],
          of "{''fill'', ''y'', ''height'', ''y1'', ''y2''}"])
       (use params_update_nodes(2) [OF assms] in auto)
  show "length (filter (matches sel) (chart.svg chart2)) = length (filter (matches sel) (chart.svg chart))"
    using s length_selectAll [of sel "chart.svg chart2"] length_selectAll [of sel "chart.svg chart"]
    by simp
qed

lemma parseFloat_5: "parseFloat ''5'' = Num 5"
  by (simp add: parseFloat_simps Let_def)

text \<open>
  Claim C9. In baseline mode the rectangle of a column whose value is 0 ends in
  the height 0, whatever the baseline, both when \<open>link\<close> renders it and when
  \<open>update\<close> retargets it; for every other value the height is
  \<open>|yScale(baseline) - yScale(value)|\<close>.
\<close>

theorem baseline_zero_height:
  "(link ts ps = Inr chart \<and> chart.showBaseline chart \<and> i < length (config.data (chart.config chart)) \<longrightarrow>
      map_of (attrs (filter (matches ''.data'') (chart.svg chart) ! i)) ''height'' =
        Some (N (if value' (config.data (chart.config chart) ! i) = 0 then Num 0
                 else \<bar>scale_y (chart.config chart) (nullToNumber (config.baseline (chart.config chart)))
                       - scale_y (chart.config chart) (Num (value' (config.data (chart.config chart) ! i)))\<bar>))) \<and>
   (params_update chart newData = Inr chart2 \<and> chart.showBaseline chart \<and>
      i < length (filter (matches ''.data'') (chart.svg chart2)) \<longrightarrow>
      i < length newData \<and>
      map_of (attrs (filter (matches ''.data'') (chart.svg chart2) ! i)) ''height'' =
        Some (N (if value' (newData ! i) = 0 then Num 0
                 else \<bar>scale_y (chart.config chart2) (nullToNumber (config.baseline (chart.config chart2)))
                       - scale_y (chart.config chart2) (Num (value' (newData ! i)))\<bar>)))"
proof (intro conjI impI)
  assume a: "link ts ps = Inr chart \<and> chart.showBaseline chart \<and> i < length (config.data (chart.config chart))"
  have "filter (matches ''.data'') (chart.svg chart) ! i
      = column_rect chart i (config.data (chart.config chart) ! i)"
    using a link_nodes(1) [of ts ps chart] by (simp add: nth_enumerate_eq)
  then show "map_of (attrs (filter (matches ''.data'') (chart.svg chart) ! i)) ''height'' =
        Some (N (if value' (config.data (chart.config chart) ! i) = 0 then Num 0
                 else \<bar>scale_y (chart.config chart) (nullToNumber (config.baseline (chart.config chart)))
                       - scale_y (chart.config chart) (Num (value' (config.data (chart.config chart) ! i)))\<bar>))"
    using a by (simp add: column_rect_targets)
next
  assume a: "params_update chart newData = Inr chart2 \<and> chart.showBaseline chart \<and>
      i < length (filter (matches ''.data'') (chart.svg chart2))"
  obtain es1 where u: "chart2 = chart\<lparr>config := (chart.config chart)\<lparr>config.data := newData\<rparr>,
      svg := chart.svg chart2\<rparr>"
    using a params_update_D by blast
  have sb: "chart.showBaseline chart2" by (subst u) (simp add: a)
  note n = params_update_nodes(4) [of chart newData chart2 i]
  show "i < length newData" using n a by simp
  have "map_of (attrs (filter (matches ''.data'') (chart.svg chart2) ! i)) ''height''
      = map_of (attrs (column_rect chart2 i (newData ! i))) ''height''"
    using n a by simp
  then show "map_of (attrs (filter (matches ''.data'') (chart.svg chart2) ! i)) ''height'' =
        Some (N (if value' (newData ! i) = 0 then Num 0
                 else \<bar>scale_y (chart.config chart2) (nullToNumber (config.baseline (chart.config chart2)))
                       - scale_y (chart.config chart2) (Num (value' (newData ! i)))\<bar>))"
    using sb by (simp add: column_rect_targets)
qed

theorem baseline_zero_height_witness:
  "\<exists>chart chart2. link toString_integer
       (no_params\<lparr>params.data := Json [column ''a'' 0, column ''b'' 3],
                  params.baseline := Some ''5'', params.max' := Some ''10''\<rparr>) = Inr chart \<and>
     chart.showBaseline chart \<and> config.baseline (chart.config chart) = Some (Num 5) \<and>
     map_of (attrs (filter (matches ''.data'') (chart.svg chart) ! 0)) ''height'' = Some (N (Num 0)) \<and>
     map_of (attrs (filter (matches ''.data'') (chart.svg chart) ! 1)) ''height'' = Some (N (Num 13.6)) \<and>
     \<bar>scale_y (chart.config chart) (Num 5) - scale_y (chart.config chart) (Num 0)\<bar> = Num 34 \<and>
     params_update chart [column ''a'' 3, column ''b'' 0] = Inr chart2 \<and>
     map_of (attrs (filter (matches ''.data'') (chart.svg chart2) ! 0)) ''height'' = Some (N (Num 13.6)) \<and>
     map_of (attrs (filter (matches ''.data'') (chart.svg chart2) ! 1)) ''height'' = Some (N (Num 0))"
proof -
  define ps where "ps = no_params\<lparr>params.data := Json [column ''a'' 0, column ''b'' 3],
      params.baseline := Some ''5'', params.max' := Some ''10''\<rparr>"
  obtain chart where l: "link toString_integer ps = Inr chart"
    by (simp add: link_Inr_iff no_params_def ps_def)
  let ?c = "chart.config chart"
  note ex = link_example [OF l, of "column ''a'' 0" "column ''b'' 3"]
  have d: "config.data ?c = [column ''a'' 0, column ''b'' 3]"
    by (rule ex(1)) (simp_all add: ps_def no_params_def)
  have y: "scale_y ?c (Num v) = Num (6 + v / 10 * 68)" for v
    by (rule ex(3)) (simp_all add: ps_def no_params_def)
  have n: "length (filter (matches ''.data'') (chart.svg chart)) = 2"
      "length (filter (matches ''.reference'') (chart.svg chart)) = 2"
    by (rule ex(4) ex(5); simp add: ps_def no_params_def)+
  have sb: "chart.showBaseline chart"
    using l by (simp add: link_Inr_iff params_render_frame link_chart_fields ps_def no_params_def
        truthy_str_def)
  have b: "config.baseline ?c = Some (Num 5)"
    using l by (simp add: link_Inr_iff params_render_frame link_config_fields ps_def no_params_def
        parseFloat_5)
  obtain chart2 where u: "params_update chart [column ''a'' 3, column ''b'' 0] = Inr chart2"
    using params_update_succeeds [of chart "[column ''a'' 3, column ''b'' 0]"] n by auto
  have c2: "chart.config chart2 = ?c\<lparr>config.data := [column ''a'' 3, column ''b'' 0]\<rparr>"
    using params_update_D [OF u] by (metis chart.select_convs(2) chart.surjective chart.update_convs(2,6))
  have n2: "length (filter (matches ''.data'') (chart.svg chart2)) = 2"
    using params_update_selectAll(2) [OF u] n by simp
  have h0: "map_of (attrs (filter (matches ''.data'') (chart.svg chart) ! 0)) ''height'' = Some (N (Num 0))"
    using baseline_zero_height [of toString_integer ps chart 0] l sb d by (simp add: column_def)
  have h1: "map_of (attrs (filter (matches ''.data'') (chart.svg chart) ! 1)) ''height'' = Some (N (Num 13.6))"
    using baseline_zero_height [of toString_integer ps chart 1] l sb d b
    by (simp add: column_def y)
  have u0: "map_of (attrs (filter (matches ''.data'') (chart.svg chart2) ! 0)) ''height'' = Some (N (Num 13.6))"
    using baseline_zero_height [of _ _ chart 0 "[column ''a'' 3, column ''b'' 0]" chart2] u sb n2 b
    by (simp add: column_def c2 geometry_data_update y)
  have u1: "map_of (attrs (filter (matches ''.data'') (chart.svg chart2) ! 1)) ''height'' = Some (N (Num 0))"
    using baseline_zero_height [of _ _ chart 1 "[column ''a'' 3, column ''b'' 0]" chart2] u sb n2
    by (simp add: column_def)
  have a: "\<bar>scale_y ?c (Num 5) - scale_y ?c (Num 0)\<bar> = Num 34"
    by (simp add: y)
  show ?thesis
    using l sb b h0 h1 a u u0 u1 unfolding ps_def by blast
qed

text \<open>
  Claim C2. After \<open>link\<close> has rendered the chart, \<open>update\<close> with the data of
  the chart returns and leaves the chart as it is: every element, and so the
  position, width, height and fill of each column's rectangle and the rows of
  each reference marker, is the one the initial render produced.
\<close>

theorem render_update_same:
  "link ts ps = Inr chart \<Longrightarrow>
   params_update chart (config.data (chart.config chart)) = Inr chart"
  by (rule link_update_same)

theorem render_update_same_witness:
  "\<exists>chart. link toString_integer
       (no_params\<lparr>params.data := Json [column ''Jan'' 7, column ''Feb'' 7.5],
                  params.max' := Some ''10''\<rparr>) = Inr chart \<and>
     config.data (chart.config chart) = [column ''Jan'' 7, column ''Feb'' 7.5] \<and>
     params_update chart [column ''Jan'' 7, column ''Feb'' 7.5] = Inr chart"
proof -
  define ps where "ps = no_params\<lparr>params.data := Json [column ''Jan'' 7, column ''Feb'' 7.5],
      params.max' := Some ''10''\<rparr>"
  obtain chart where l: "link toString_integer ps = Inr chart"
    by (simp add: link_Inr_iff no_params_def ps_def)
  have d: "config.data (chart.config chart) = [column ''Jan'' 7, column ''Feb'' 7.5]"
    by (rule link_example(1) [OF l]) (simp_all add: ps_def no_params_def)
  show ?thesis
    using render_update_same [OF l] l d unfolding ps_def by auto
qed

text \<open>
  Claim C5. When \<open>update(newData)\<close> returns, the chart differs from the one before
  in \<open>config.data\<close> and in the drawing only. The drawing has the same elements in
  the same order; an element differs at most in its attributes \<open>fill\<close>, \<open>y\<close>,
  \<open>height\<close>, \<open>y1\<close> and \<open>y2\<close>, and an element that has neither the class \<open>data\<close>
  nor the class \<open>reference\<close> is unchanged. The rectangle of class \<open>data\<close> at the
  index \<open>i\<close> ends in the fill, y and height that the chart's mode gives column
  \<open>i\<close> of the new data, and the marker of class \<open>reference\<close> at \<open>i\<close> in the rows of
  its reference. \<open>updateErrorBars\<close> changes nothing, and the backgrounds, the
  threshold lines, the axis labels, the error bars and the borders are elements
  with neither class.
\<close>

theorem params_update_frame:
  "params_update chart newData = Inr chart2 \<Longrightarrow>
   chart2 = chart\<lparr>config := (chart.config chart)\<lparr>config.data := newData\<rparr>, svg := chart.svg chart2\<rparr> \<and>
   length (chart.svg chart2) = length (chart.svg chart) \<and>
   (\<forall>j<length (chart.svg chart).
      touched_only {''fill'', ''y'', ''height'', ''y1'', ''y2''} (chart.svg chart ! j) (chart.svg chart2 ! j) \<and>
      (chrome (chart.svg chart ! j) \<longrightarrow> chart.svg chart2 ! j = chart.svg chart ! j)) \<and>
   (\<forall>i<length (filter (matches ''.data'') (chart.svg chart2)). i < length newData \<and>
      (\<forall>k\<in>{''fill'', ''y'', ''height''}.
         map_of (attrs (filter (matches ''.data'') (chart.svg chart2) ! i)) k
           = map_of (attrs (column_rect chart2 i (newData ! i))) k)) \<and>
   (\<forall>i<length (filter (matches ''.reference'') (chart.svg chart2)). i < length newData \<and>
      (\<forall>k\<in>{''y1'', ''y2''}.
         map_of (attrs (filter (matches ''.reference'') (chart.svg chart2) ! i)) k
           = map_of (attrs (reference_line (chart.config chart2) i (newData ! i))) k)) \<and>
   updateErrorBars (chart.config chart2) (chart.svg chart2) = Inr (chart.svg chart2) \<and>
   adds_chrome (renderBackgrounds (chart.config chart)) \<and>
   adds_chrome (renderThresholdMarkers (chart.config chart)) \<and>
   adds_chrome (renderXAxis ts (chart.config chart)) \<and>
   adds_chrome (renderYAxis ts (chart.config chart)) \<and>
   adds_chrome (renderErrorBars (chart.config chart)) \<and>
   adds_chrome (renderBorders (chart.config chart))"
proof -
  assume u: "params_update chart newData = Inr chart2"
  have 1: "chart2 = chart\<lparr>config := (chart.config chart)\<lparr>config.data := newData\<rparr>, svg := chart.svg chart2\<rparr>"
    using params_update_D [OF u] by blast
  note n = params_update_nodes [OF u]
  show ?thesis
    by (intro conjI allI impI 1 n backgrounds_chrome thresholds_chrome xaxis_chrome yaxis_chrome
          errorBars_chrome borders_chrome)
       (simp_all add: updateErrorBars_def)
qed

theorem params_update_frame_witness:
  "\<exists>chart chart2 j. link toString_integer
       (no_params\<lparr>params.data := Json [column ''Jan'' 7, column ''Feb'' 7.5],
                  params.max' := Some ''10''\<rparr>) = Inr chart \<and>
     params_update chart [column ''Jan'' 3, column ''Feb'' 9] = Inr chart2 \<and>
     config.data (chart.config chart2) = [column ''Jan'' 3, column ''Feb'' 9] \<and>
     length (chart.svg chart2) = length (chart.svg chart) \<and>
     j < length (chart.svg chart) \<and> chrome (chart.svg chart ! j) \<and>
     chart.svg chart2 ! j = chart.svg chart ! j \<and>
     length (filter (matches ''.data'') (chart.svg chart2)) = 2 \<and>
     map_of (attrs (filter (matches ''.data'') (chart.svg chart2) ! 0)) ''height'' = Some (N (Num 20.4)) \<and>
     map_of (attrs (filter (matches ''.data'') (chart.svg chart2) ! 1)) ''fill'' = Some (S colors_default) \<and>
     length (filter (matches ''.reference'') (chart.svg chart2)) = 2 \<and>
     map_of (attrs (filter (matches ''.reference'') (chart.svg chart2) ! 0)) ''y1'' = Some (N (Num 74))"
proof -
  define ps where "ps = no_params\<lparr>params.data := Json [column ''Jan'' 7, column ''Feb'' 7.5],
      params.max' := Some ''10''\<rparr>"
  define nd where "nd = [column ''Jan'' 3, column ''Feb'' 9]"
  obtain chart where l: "link toString_integer ps = Inr chart"
    by (simp add: link_Inr_iff no_params_def ps_def)
  let ?c = "chart.config chart"
  note ex = link_example [OF l, of "column ''Jan'' 7" "column ''Feb'' 7.5"]
  have y: "scale_y ?c (Num v) = Num (6 + v / 10 * 68)" for v
    by (rule ex(3)) (simp_all add: ps_def no_params_def)
  have g: "marginTop ?c = Num 6" "config.height ?c = Num 75" "marginBottom ?c = Num 1"
    by (rule ex(2) ex(6) ex(7); simp add: ps_def no_params_def)+
  have n: "length (filter (matches ''.data'') (chart.svg chart)) = 2"
      "length (filter (matches ''.reference'') (chart.svg chart)) = 2"
    by (rule ex(4) ex(5); simp add: ps_def no_params_def)+
  have sb: "\<not> chart.showBaseline chart"
    using l by (simp add: link_Inr_iff params_render_frame link_chart_fields ps_def no_params_def)
  have th: "config.thresholds ?c = None"
    using l by (simp add: link_Inr_iff params_render_frame link_config_fields ps_def no_params_def)
  obtain chart2 where u: "params_update chart nd = Inr chart2"
    using params_update_succeeds [of chart nd] n by (auto simp add: nd_def)
  note fr = params_update_frame [OF u, of toString_integer]
  have c2: "chart.config chart2 = ?c\<lparr>config.data := nd\<rparr>"
    using params_update_D [OF u] by (metis chart.select_convs(2) chart.surjective chart.update_convs(2,6))
  have sb2: "\<not> chart.showBaseline chart2"
    using params_update_D [OF u] sb
    by (metis chart.select_convs(3) chart.surjective chart.update_convs(2,6))
  have n2: "length (filter (matches ''.data'') (chart.svg chart2)) = 2"
      "length (filter (matches ''.reference'') (chart.svg chart2)) = 2"
    using params_update_selectAll(2) [OF u] n by simp_all
  obtain j where j: "j < length (chart.svg chart)" "chrome (chart.svg chart ! j)"
    using link_border [OF l] by blast
  have same: "chart.svg chart2 ! j = chart.svg chart ! j" using fr j by blast
  have len: "length (chart.svg chart2) = length (chart.svg chart)" using fr by blast
  have nd0: "nd ! 0 = column ''Jan'' 3" "nd ! 1 = column ''Feb'' 9" by (simp_all add: nd_def)
  have "map_of (attrs (filter (matches ''.data'') (chart.svg chart2) ! 0)) ''height''
      = map_of (attrs (column_rect chart2 0 (nd ! 0))) ''height''"
    using fr n2 by simp
  then have h: "map_of (attrs (filter (matches ''.data'') (chart.svg chart2) ! 0)) ''height''
      = Some (N (Num 20.4))"
    using sb2 by (simp add: column_rect_targets c2 geometry_data_update y g nd0 column_def)
  have fo: "fill_of (column ''Feb'' 9) ?c = colors_default"
    by (simp add: fill_of_def column_def th getColor_null)
  have "map_of (attrs (filter (matches ''.data'') (chart.svg chart2) ! 1)) ''fill''
      = map_of (attrs (column_rect chart2 1 (column ''Feb'' 9))) ''fill''"
    using fr n2 nd0 by simp
  then have f: "map_of (attrs (filter (matches ''.data'') (chart.svg chart2) ! 1)) ''fill''
      = Some (S colors_default)"
    by (simp add: column_rect_targets c2 geometry_data_update fo)
  have "map_of (attrs (filter (matches ''.reference'') (chart.svg chart2) ! 0)) ''y1''
      = map_of (attrs (reference_line (chart.config chart2) 0 (nd ! 0))) ''y1''"
    using fr n2 by simp
  then have r: "map_of (attrs (filter (matches ''.reference'') (chart.svg chart2) ! 0)) ''y1''
      = Some (N (Num 74))"
    by (simp add: reference_line_targets c2 geometry_data_update y g nd0 column_def)
  have d2: "config.data (chart.config chart2) = nd" by (simp add: c2)
  show ?thesis
    using l u d2 len j same n2 h f r unfolding ps_def nd_def by blast
qed

end
